theory Spec2Isabelle
  imports Main "HOL-Library.Word"
begin

section \<open>kosyncsrv: a reading-progress synchronisation server\<close>

text \<open>
  The program verified here is the pair \<^verbatim>\<open>kosyncsrv.go\<close> (types, handlers, middleware,
  routes) and the storage file that goes with it (\<^verbatim>\<open>schemaUser\<close>,
  \<^verbatim>\<open>schemaDocument\<close>, \<^verbatim>\<open>getDBUser\<close>, \<^verbatim>\<open>addDBUser\<close>,
  \<^verbatim>\<open>getDBPosition\<close>, \<^verbatim>\<open>existDoc\<close>, \<^verbatim>\<open>updateDBdocument\<close>).

  Go strings are byte sequences and are modelled as \<^typ>\<open>string\<close>. An \<^verbatim>\<open>int64\<close> is
  only ever copied and compared by the program, never computed with, so it is an
  \<^typ>\<open>int\<close>; a \<^verbatim>\<open>float64\<close> is never computed with either (the program copies
  it, the \<^verbatim>\<open>REAL\<close> column stores it), so it is its 64-bit pattern.
  The global handle \<^verbatim>\<open>db\<close> becomes an explicit value that every function takes
  and, when it writes, returns. The reading of the clock \<^verbatim>\<open>time.Now().Unix()\<close> is
  a parameter.
\<close>

subsection \<open>Types of \<^verbatim>\<open>kosyncsrv.go\<close>\<close>

type_synonym int64 = int
type_synonym float64 = "64 word"

record requestUser =
  Username :: string
  Password :: string

record requestHeader =
  Accept :: string
  AuthUser :: string
  AuthKey :: string

record stringOrInt =
  inner :: string

record requestPosition =
  Timestamp :: int64
  DocumentID :: string
  Progress :: stringOrInt
  Device :: string
  Percentage :: float64
  DeviceID :: string

record replyPosition =
  Timestamp :: int64
  DocumentID :: string

record requestDocid =
  DocumentID :: string

record errorResponse =
  Status :: int
  Code :: int
  Message :: string

definition InvalidHeader :: errorResponse where
  "InvalidHeader = \<lparr>Status = 400, Code = 100, Message = ''Invalid Header''\<rparr>"

definition InvalidAcceptHeader :: errorResponse where
  "InvalidAcceptHeader = \<lparr>Status = 412, Code = 101, Message = ''Invalid Accept header format.''\<rparr>"

definition UnknownServerError :: errorResponse where
  "UnknownServerError = \<lparr>Status = 500, Code = 500, Message = ''Unknown server error.''\<rparr>"

definition Unauthorized :: errorResponse where
  "Unauthorized = \<lparr>Status = 401, Code = 2001, Message = ''Unauthorized''\<rparr>"

definition UsernameAlreadyRegistered :: errorResponse where
  "UsernameAlreadyRegistered = \<lparr>Status = 403, Code = 2002, Message = ''Username is already registered.''\<rparr>"

definition InvalidRequest :: errorResponse where
  "InvalidRequest = \<lparr>Status = 403, Code = 2003, Message = ''Invalid Request''\<rparr>"

definition DocumentIdNotProvided :: errorResponse where
  "DocumentIdNotProvided = \<lparr>Status = 403, Code = 2004, Message = ''Field 'document' not provided.''\<rparr>"

subsection \<open>The storage layer\<close>

text \<open>
  The two tables are created without any key or uniqueness constraint, so a table is a
  list of rows in insertion order and may hold duplicates. The SQLite engine itself is
  outside the program; what the program sees of it is the outcome of each statement:
  a result, \<^verbatim>\<open>sql.ErrNoRows\<close>, or some other error. The field \<open>faults\<close> is that
  part of the environment: it lists, for the statements still to come, whether the
  engine fails to execute them (\<open>True\<close>). Every statement takes the next entry; once
  the list is used up, statements execute.
\<close>

record dbUser =
  Username :: string
  Password :: string

record dbDocument =
  Username :: string
  DocumentID :: string
  Percentage :: float64
  Progress :: string
  Device :: string
  DeviceID :: string
  Timestamp :: int64

record database =
  user :: "dbUser list"
  document :: "dbDocument list"
  faults :: "bool list"

datatype sql_error = ErrNoRows | ErrOther

text \<open>One statement reaches the engine: whether it executes, and the store with the
  entry of \<open>faults\<close> taken.\<close>

definition statement :: "database \<Rightarrow> bool \<times> database" where
  "statement db =
     (case faults db of
        [] \<Rightarrow> (True, db)
      | f # fs \<Rightarrow> (\<not> f, db\<lparr>faults := fs\<rparr>))"

text \<open>\<^verbatim>\<open>db.Get\<close>: the first row of the result set, \<^verbatim>\<open>sql.ErrNoRows\<close> when it is empty.\<close>

definition db_Get :: "database \<Rightarrow> 'a list \<Rightarrow> (sql_error + 'a) \<times> database" where
  "db_Get db rows =
     (let (ok, db') = statement db in
      (if \<not> ok then Inl ErrOther
       else case rows of [] \<Rightarrow> Inl ErrNoRows | r # _ \<Rightarrow> Inr r, db'))"

text \<open>The row that \<^verbatim>\<open>INSERT INTO user (username, password) VALUES ($1, $2)\<close> adds.\<close>

definition insert_user :: "database \<Rightarrow> string \<Rightarrow> string \<Rightarrow> database" where
  "insert_user db username password =
     db\<lparr>user := user db @ [\<lparr>dbUser.Username = username, dbUser.Password = password\<rparr>]\<rparr>"

text \<open>
  What the column \<^verbatim>\<open>"percentage" REAL(64,4)\<close> holds after a \<^verbatim>\<open>float64\<close> has been written
  to it. SQLite writes a floating-point value without fractional part as an integer, so
  the negative zero (bit pattern \<open>0x8000000000000000\<close>) is stored as the integer 0 and
  read back as the positive zero; every other number a JSON body can carry (they are
  finite) is read back as it was written.
\<close>

definition REAL_column :: "float64 \<Rightarrow> float64" where
  "REAL_column perc = (if perc = 0x8000000000000000 then 0 else perc)"

text \<open>\<^verbatim>\<open>db.NamedExec\<close> of the
  \<^verbatim>\<open>UPDATE document set ... WHERE username=:user AND documentid=:docid\<close> statement:
  every row matching the key is rewritten. The first component is \<^verbatim>\<open>err == nil\<close>.\<close>

definition update_document ::
  "database \<Rightarrow> float64 \<Rightarrow> string \<Rightarrow> string \<Rightarrow> string \<Rightarrow> int64 \<Rightarrow> string \<Rightarrow> string \<Rightarrow> bool \<times> database" where
  "update_document db perc prog device devid time' username docid =
     (let (ok, db') = statement db in
      if \<not> ok then (False, db')
      else (True, db'\<lparr>document :=
        map (\<lambda>r. if dbDocument.Username r = username \<and> dbDocument.DocumentID r = docid
                  then r\<lparr>dbDocument.Percentage := REAL_column perc, dbDocument.Progress := prog,
                         dbDocument.Device := device, dbDocument.DeviceID := devid,
                         dbDocument.Timestamp := time'\<rparr>
                  else r) (document db')\<rparr>))"

text \<open>\<^verbatim>\<open>db.NamedExec\<close> of the \<^verbatim>\<open>INSERT INTO document (...) VALUES (...)\<close> statement.\<close>

definition insert_document ::
  "database \<Rightarrow> string \<Rightarrow> string \<Rightarrow> float64 \<Rightarrow> string \<Rightarrow> string \<Rightarrow> string \<Rightarrow> int64 \<Rightarrow> bool \<times> database" where
  "insert_document db username docid perc prog dev devid time' =
     (let (ok, db') = statement db in
      if \<not> ok then (False, db')
      else (True, db'\<lparr>document := document db' @
        [\<lparr>dbDocument.Username = username, dbDocument.DocumentID = docid,
          dbDocument.Percentage = REAL_column perc, dbDocument.Progress = prog, dbDocument.Device = dev,
          dbDocument.DeviceID = devid, dbDocument.Timestamp = time'\<rparr>]\<rparr>))"

text \<open>What a function of the program can end in besides returning: a panic
  (\<^verbatim>\<open>MustBegin\<close>, \<^verbatim>\<open>MustExec\<close>), which gin's recovery middleware catches, and
  \<^verbatim>\<open>log.Fatalln\<close>, which ends the process.\<close>

datatype 'a outcome = Done 'a | Panic | Fatal

definition getDBUser :: "database \<Rightarrow> string \<Rightarrow> (dbUser \<times> bool) \<times> database" where
  "getDBUser db username =
     (let (res, db') = db_Get db (filter (\<lambda>r. dbUser.Username r = username) (user db)) in
      (case res of
         Inr result \<Rightarrow> (result, False)
       | Inl ErrNoRows \<Rightarrow> (\<lparr>dbUser.Username = [], dbUser.Password = []\<rparr>, True)
       | Inl ErrOther \<Rightarrow> (\<lparr>dbUser.Username = [], dbUser.Password = []\<rparr>, False), db'))"

text \<open>The transaction of \<^verbatim>\<open>addDBUser\<close> is three statements: \<^verbatim>\<open>MustBegin\<close> and
  \<^verbatim>\<open>MustExec\<close> panic when theirs fails; the result of \<^verbatim>\<open>tx.Commit()\<close> is
  dropped, and a commit that fails leaves the table as it was.\<close>

definition addDBUser :: "database \<Rightarrow> string \<Rightarrow> string \<Rightarrow> bool outcome \<times> database" where
  "addDBUser db username password =
     (let ((_, norows), db1) = getDBUser db username in
      if norows then
        (let (began, db2) = statement db1 in
         if \<not> began then (Panic, db2)
         else
           (let (inserted, db3) = statement db2 in
            if \<not> inserted then (Panic, db3)
            else
              (let (committed, db4) = statement db3 in
               if committed then (Done True, insert_user db4 username password)
               else (Done True, db4))))
      else (Done False, db1))"

definition getDBPosition ::
  "database \<Rightarrow> string \<Rightarrow> string \<Rightarrow> (sql_error + requestPosition) \<times> database" where
  "getDBPosition db username documentid =
     (let (res, db') = db_Get db
        (sort_key (\<lambda>r. - dbDocument.Timestamp r)
           (filter (\<lambda>r. dbDocument.Username r = username \<and> dbDocument.DocumentID r = documentid)
              (document db)))
      in (case res of
            Inl err \<Rightarrow> Inl err
          | Inr resultDBdoc \<Rightarrow>
              Inr \<lparr>requestPosition.Timestamp = dbDocument.Timestamp resultDBdoc,
                   requestPosition.DocumentID = documentid,
                   requestPosition.Progress = \<lparr>inner = dbDocument.Progress resultDBdoc\<rparr>,
                   requestPosition.Device = dbDocument.Device resultDBdoc,
                   requestPosition.Percentage = dbDocument.Percentage resultDBdoc,
                   requestPosition.DeviceID = dbDocument.DeviceID resultDBdoc\<rparr>, db'))"

definition existDoc :: "database \<Rightarrow> string \<Rightarrow> string \<Rightarrow> bool \<times> database" where
  "existDoc db username docid =
     (let (res, db') = db_Get db
        (filter (\<lambda>r. dbDocument.Username r = username \<and> dbDocument.DocumentID r = docid)
           (document db))
      in (case res of
            Inr result \<Rightarrow> True
          | Inl ErrNoRows \<Rightarrow> False
          | Inl ErrOther \<Rightarrow> True, db'))"

definition updateDBdocument ::
  "database \<Rightarrow> int64 \<Rightarrow> string \<Rightarrow> requestPosition \<Rightarrow> int64 outcome \<times> database" where
  "updateDBdocument db nowtime username rPos =
     (let (exists, db1) = existDoc db username (requestPosition.DocumentID rPos) in
      if exists then
        (let (ok, db2) = update_document db1 (requestPosition.Percentage rPos)
                (inner (requestPosition.Progress rPos)) (requestPosition.Device rPos)
                (requestPosition.DeviceID rPos) nowtime username (requestPosition.DocumentID rPos)
         in if \<not> ok then (Fatal, db2) else (Done nowtime, db2))
      else
        (let (ok, db2) = insert_document db1 username (requestPosition.DocumentID rPos)
                (requestPosition.Percentage rPos) (inner (requestPosition.Progress rPos))
                (requestPosition.Device rPos) (requestPosition.DeviceID rPos) nowtime
         in if \<not> ok then (Fatal, db2) else (Done nowtime, db2)))"

subsection \<open>The \<open>progress\<close> member on the wire\<close>

text \<open>
  \<^verbatim>\<open>UnmarshalJSON\<close> receives the raw text of one JSON value. The value is modelled by
  its kind; a number carries its literal text and a string its decoded contents, which
  is what \<^verbatim>\<open>json.Unmarshal\<close> hands to \<^verbatim>\<open>strconv.ParseInt\<close> and to the Go string.
  Go's \<^verbatim>\<open>int\<close> is taken to be 64 bits wide.
\<close>

datatype json = JNull | JBool bool | JNumber string | JString string | JArray | JObject

definition is_digit :: "char \<Rightarrow> bool" where
  "is_digit c = (48 \<le> (of_char c :: nat) \<and> (of_char c :: nat) \<le> 57)"

fun parse_digits :: "string \<Rightarrow> nat \<Rightarrow> nat option" where
  "parse_digits [] acc = Some acc"
| "parse_digits (c # cs) acc =
     (if is_digit c then parse_digits cs (acc * 10 + (of_char c - 48)) else None)"

text \<open>\<^verbatim>\<open>strconv.ParseInt(s, 10, 64)\<close>: an optional sign, then one or more decimal digits,
  and the value has to fit in 64 bits.\<close>

definition ParseInt :: "string \<Rightarrow> int option" where
  "ParseInt s =
     (case s of
        [] \<Rightarrow> None
      | c # cs \<Rightarrow>
          (let neg = (c = CHR ''-'');
               ds = (if c = CHR ''-'' \<or> c = CHR ''+'' then cs else s)
           in if ds = [] then None
              else case parse_digits ds 0 of
                     None \<Rightarrow> None
                   | Some n \<Rightarrow>
                       (let v = (if neg then - int n else int n)
                        in if - (2 ^ 63) \<le> v \<and> v < 2 ^ 63 then Some v else None)))"

fun digits_of :: "nat \<Rightarrow> string" where
  "digits_of n =
     (if n < 10 then [char_of (48 + n)]
      else digits_of (n div 10) @ [char_of (48 + n mod 10)])"

text \<open>\<^verbatim>\<open>strconv.Itoa\<close>\<close>

definition Itoa :: "int \<Rightarrow> string" where
  "Itoa i = (if i < 0 then CHR ''-'' # digits_of (nat (- i)) else digits_of (nat i))"

text \<open>\<^verbatim>\<open>json.Unmarshal(b, &i)\<close> with \<^verbatim>\<open>var i int\<close>: a JSON null leaves \<open>i\<close> at zero.\<close>

definition Unmarshal_int :: "json \<Rightarrow> int option" where
  "Unmarshal_int b =
     (case b of
        JNull \<Rightarrow> Some 0
      | JNumber lit \<Rightarrow> ParseInt lit
      | _ \<Rightarrow> None)"

text \<open>\<^verbatim>\<open>json.Unmarshal(b, &ss)\<close> with \<^verbatim>\<open>var ss string\<close>.\<close>

definition Unmarshal_string :: "json \<Rightarrow> string option" where
  "Unmarshal_string b =
     (case b of
        JNull \<Rightarrow> Some []
      | JString str \<Rightarrow> Some str
      | _ \<Rightarrow> None)"

definition MarshalJSON :: "stringOrInt \<Rightarrow> json" where
  "MarshalJSON s = JString (inner s)"

definition UnmarshalJSON :: "json \<Rightarrow> stringOrInt option" where
  "UnmarshalJSON b =
     (case Unmarshal_int b of
        Some i \<Rightarrow> Some \<lparr>inner = Itoa i\<rparr>
      | None \<Rightarrow>
          (case Unmarshal_string b of
             Some ss \<Rightarrow> Some \<lparr>inner = ss\<rparr>
           | None \<Rightarrow> None))"

text \<open>The JSON object of a position, in a request body and in the answer to a pull.
  The members other than \<open>progress\<close> are taken as already decoded to their Go types
  (a body where they are not does not bind); \<open>progress\<close> is \<open>None\<close> when the member
  is absent, and then the field keeps its zero value.\<close>

record positionJSON =
  timestamp :: int64
  document_member :: string
  progress :: "json option"
  device :: string
  percentage :: float64
  device_id :: string

text \<open>The decoding of the \<open>progress\<close> member into the field \<^verbatim>\<open>Progress\<close>.\<close>

definition UnmarshalJSON_progress :: "positionJSON \<Rightarrow> stringOrInt option" where
  "UnmarshalJSON_progress b =
     (case progress b of None \<Rightarrow> Some \<lparr>inner = []\<rparr> | Some j \<Rightarrow> UnmarshalJSON j)"

text \<open>\<^verbatim>\<open>c.ShouldBindJSON(&rPosition)\<close>; \<open>None\<close> as argument is a body that is not a JSON
  object of this shape, \<open>None\<close> as result is the binding error.\<close>

definition ShouldBindJSON :: "positionJSON option \<Rightarrow> requestPosition option" where
  "ShouldBindJSON body =
     (case body of
        None \<Rightarrow> None
      | Some b \<Rightarrow>
          (case UnmarshalJSON_progress b of
             None \<Rightarrow> None
           | Some p \<Rightarrow>
               Some \<lparr>requestPosition.Timestamp = timestamp b,
                     requestPosition.DocumentID = document_member b,
                     requestPosition.Progress = p,
                     requestPosition.Device = device b,
                     requestPosition.Percentage = percentage b,
                     requestPosition.DeviceID = device_id b\<rparr>))"

text \<open>\<^verbatim>\<open>json.Marshal\<close> of a \<^verbatim>\<open>requestPosition\<close>.\<close>

definition Marshal_requestPosition :: "requestPosition \<Rightarrow> positionJSON" where
  "Marshal_requestPosition p =
     \<lparr>timestamp = requestPosition.Timestamp p,
      document_member = requestPosition.DocumentID p,
      progress = Some (MarshalJSON (requestPosition.Progress p)),
      device = requestPosition.Device p,
      percentage = requestPosition.Percentage p,
      device_id = requestPosition.DeviceID p\<rparr>"

subsection \<open>Handlers\<close>

datatype body =
    ErrorJSON int string
  | UsernameJSON string
  | AuthorizedJSON string
  | StateJSON string
  | EmptyJSON
  | PositionJSON positionJSON
  | ReplyJSON replyPosition
  | NoBody

datatype response = Response int body

text \<open>A handler either records an error with \<^verbatim>\<open>c.Error\<close> (\<open>Inl\<close>) or writes a response
  with \<^verbatim>\<open>c.JSON\<close> (\<open>Inr\<close>).\<close>

type_synonym handled = "(errorResponse + response) outcome \<times> database"

definition validKeyField :: "string \<Rightarrow> bool" where
  "validKeyField field = (length field > 0 \<and> CHR '':'' \<notin> set field)"

text \<open>The argument \<open>None\<close> of \<open>register\<close> is a body on which \<^verbatim>\<open>c.ShouldBindJSON\<close> fails.\<close>

definition register :: "database \<Rightarrow> requestUser option \<Rightarrow> handled" where
  "register db body =
     (case body of
        None \<Rightarrow> (Done (Inl InvalidRequest), db)
      | Some rUser \<Rightarrow>
          if requestUser.Username rUser = [] \<or> requestUser.Password rUser = []
          then (Done (Inl InvalidRequest), db)
          else
            (case addDBUser db (requestUser.Username rUser) (requestUser.Password rUser) of
               (Panic, db') \<Rightarrow> (Panic, db')
             | (Fatal, db') \<Rightarrow> (Fatal, db')
             | (Done ok, db') \<Rightarrow>
                 if \<not> ok then (Done (Inl UsernameAlreadyRegistered), db')
                 else (Done (Inr (Response 201 (UsernameJSON (requestUser.Username rUser)))), db')))"

definition authorize :: "errorResponse + response" where
  "authorize = Inr (Response 200 (AuthorizedJSON ''OK''))"

text \<open>\<^verbatim>\<open>c.ShouldBindUri\<close> with \<^verbatim>\<open>binding:"required"\<close> fails on an empty parameter.\<close>

definition getProgress :: "database \<Rightarrow> string \<Rightarrow> string \<Rightarrow> handled" where
  "getProgress db username document_param =
     (if document_param = [] then (Done (Inl UnknownServerError), db)
      else
        (case getDBPosition db username document_param of
           (Inl err, db') \<Rightarrow> (Done (Inr (Response 200 EmptyJSON)), db')
         | (Inr position, db') \<Rightarrow>
             (Done (Inr (Response 200 (PositionJSON (Marshal_requestPosition position)))), db')))"

definition updateProgress :: "database \<Rightarrow> int64 \<Rightarrow> string \<Rightarrow> positionJSON option \<Rightarrow> handled" where
  "updateProgress db nowtime username body =
     (case ShouldBindJSON body of
        None \<Rightarrow> (Done (Inl InvalidRequest), db)
      | Some rPosition \<Rightarrow>
          if \<not> validKeyField (requestPosition.DocumentID rPosition)
          then (Done (Inl DocumentIdNotProvided), db)
          else if inner (requestPosition.Progress rPosition) = [] \<or> requestPosition.Device rPosition = []
          then (Done (Inl InvalidRequest), db)
          else
            (case updateDBdocument db nowtime username rPosition of
               (Panic, db') \<Rightarrow> (Panic, db')
             | (Fatal, db') \<Rightarrow> (Fatal, db')
             | (Done updatetime, db') \<Rightarrow>
                 (Done (Inr (Response 200
                    (ReplyJSON \<lparr>replyPosition.Timestamp = updatetime,
                                replyPosition.DocumentID = requestPosition.DocumentID rPosition\<rparr>))), db')))"

subsection \<open>Middleware and routes\<close>

definition ErrorHandler :: "errorResponse + response \<Rightarrow> response" where
  "ErrorHandler r =
     (case r of
        Inl err \<Rightarrow> Response (Status err) (ErrorJSON (Code err) (Message err))
      | Inr resp \<Rightarrow> resp)"

text \<open>\<open>Inr header\<close> is \<^verbatim>\<open>c.Set("header", header); c.Next()\<close>; the argument \<open>None\<close> is a
  failing \<^verbatim>\<open>c.ShouldBindHeader\<close>.\<close>

definition AcceptHeaderCheck :: "requestHeader option \<Rightarrow> errorResponse + requestHeader" where
  "AcceptHeaderCheck hdr =
     (case hdr of
        None \<Rightarrow> Inl InvalidHeader
      | Some header \<Rightarrow>
          if Accept header = ''application/vnd.koreader.v1+json'' then Inr header
          else Inl InvalidAcceptHeader)"

text \<open>\<open>Inr username\<close> is \<^verbatim>\<open>c.Set("username", header.AuthUser); c.Next()\<close>; \<open>Inl\<close> is
  \<^verbatim>\<open>c.Error(&Unauthorized); c.Abort()\<close>.\<close>

definition AuthRequired :: "database \<Rightarrow> requestHeader \<Rightarrow> (errorResponse + string) \<times> database" where
  "AuthRequired db header =
     (if validKeyField (AuthUser header) \<and> length (AuthKey header) > 0 then
        (let ((dUser, norows), db') = getDBUser db (AuthUser header) in
         if \<not> norows \<and> AuthKey header = dbUser.Password dUser then (Inr (AuthUser header), db')
         else (Inl Unauthorized, db'))
      else (Inl Unauthorized, db))"

datatype route =
    GET_healthcheck
  | POST_users_create "requestUser option"
  | GET_users_auth
  | GET_syncs_progress string
  | PUT_syncs_progress "positionJSON option"

text \<open>The group \<^verbatim>\<open>authorized := router.Group("/", AuthRequired)\<close>: a handler of the
  group runs when \<open>AuthRequired\<close> has called \<^verbatim>\<open>c.Next()\<close>.\<close>

definition authorized :: "database \<Rightarrow> requestHeader \<Rightarrow> (database \<Rightarrow> handled) \<Rightarrow> handled" where
  "authorized db header handler =
     (case AuthRequired db header of
        (Inl err, db') \<Rightarrow> (Done (Inl err), db')
      | (Inr username, db') \<Rightarrow> handler db')"

text \<open>\<^verbatim>\<open>router.Use(AcceptHeaderCheck)\<close> and the five routes.\<close>

definition router :: "database \<Rightarrow> int64 \<Rightarrow> requestHeader option \<Rightarrow> route \<Rightarrow> handled" where
  "router db nowtime hdr rt =
     (case AcceptHeaderCheck hdr of
        Inl err \<Rightarrow> (Done (Inl err), db)
      | Inr header \<Rightarrow>
          (case rt of
             GET_healthcheck \<Rightarrow> (Done (Inr (Response 200 (StateJSON ''OK''))), db)
           | POST_users_create b \<Rightarrow> register db b
           | GET_users_auth \<Rightarrow> authorized db header (\<lambda>db'. (Done authorize, db'))
           | GET_syncs_progress d \<Rightarrow>
               authorized db header (\<lambda>db'. getProgress db' (AuthUser header) d)
           | PUT_syncs_progress b \<Rightarrow>
               authorized db header (\<lambda>db'. updateProgress db' nowtime (AuthUser header) b)))"

text \<open>One request through \<^verbatim>\<open>gin.Default()\<close> with the routes of \<^verbatim>\<open>main\<close>: the
  recovery middleware answers a panic with status 500; after \<^verbatim>\<open>log.Fatalln\<close> there
  is no response (\<open>None\<close>) and the process has ended.\<close>

definition serve ::
  "database \<Rightarrow> int64 \<Rightarrow> requestHeader option \<Rightarrow> route \<Rightarrow> response option \<times> database" where
  "serve db nowtime hdr rt =
     (case router db nowtime hdr rt of
        (Fatal, db') \<Rightarrow> (None, db')
      | (Panic, db') \<Rightarrow> (Some (Response 500 NoBody), db')
      | (Done r, db') \<Rightarrow> (Some (ErrorHandler r), db'))"

text \<open>The stores of a server that answers its requests one after another: it starts on
  empty tables and serves each request to its end before the next (started again after
  \<^verbatim>\<open>log.Fatalln\<close>, it finds the tables as they were); the engine's faults are
  arbitrary. gin serves requests on goroutines of their own, so a running server also
  reaches stores that are not of this kind: those that the interleavings of the last
  subsection of the definitions end in.\<close>

inductive sequentially_reachable :: "database \<Rightarrow> bool" where
  init: "sequentially_reachable \<lparr>user = [], document = [], faults = fs\<rparr>"
| request: "sequentially_reachable db \<Longrightarrow> serve db nowtime hdr rt = (resp, db') \<Longrightarrow> sequentially_reachable db'"
| engine: "sequentially_reachable db \<Longrightarrow> sequentially_reachable (db\<lparr>faults := fs\<rparr>)"

subsection \<open>Notions used to state the properties\<close>

text \<open>The routes of the group \<^verbatim>\<open>authorized := router.Group("/", AuthRequired)\<close>.\<close>

fun protected :: "route \<Rightarrow> bool" where
  "protected GET_healthcheck = False"
| "protected (POST_users_create b) = False"
| "protected GET_users_auth = True"
| "protected (GET_syncs_progress d) = True"
| "protected (PUT_syncs_progress b) = True"

text \<open>The rows a \<^verbatim>\<open>WHERE username=... AND documentid=...\<close> clause selects.\<close>

definition position_rows :: "database \<Rightarrow> string \<Rightarrow> string \<Rightarrow> dbDocument list" where
  "position_rows db username docid =
     filter (\<lambda>r. dbDocument.Username r = username \<and> dbDocument.DocumentID r = docid) (document db)"

definition unique_usernames :: "database \<Rightarrow> bool" where
  "unique_usernames db = distinct (map dbUser.Username (user db))"

definition unique_keys :: "database \<Rightarrow> bool" where
  "unique_keys db = distinct (map (\<lambda>r. (dbDocument.Username r, dbDocument.DocumentID r)) (document db))"

text \<open>The number literals of the JSON grammar that have neither fraction nor exponent:
  an optional minus sign, then either the single digit \<open>0\<close> or digits that do not start
  with \<open>0\<close>.\<close>

definition json_integer_literal :: "string \<Rightarrow> bool" where
  "json_integer_literal lit =
     (let ds = (case lit of [] \<Rightarrow> [] | c # cs \<Rightarrow> if c = CHR ''-'' then cs else lit)
      in ds \<noteq> [] \<and> list_all is_digit ds \<and> (ds = ''0'' \<or> hd ds \<noteq> CHR ''0''))"

subsection \<open>Requests that run at the same time\<close>

text \<open>
  gin serves every request on a goroutine of its own, so the statements of two calls of
  \<^verbatim>\<open>addDBUser\<close>, or of \<^verbatim>\<open>updateDBdocument\<close>, reach the engine in some interleaving.
  A call is cut at its statements: a thread is the point a call has reached, and one
  step executes the statement at that point. The engine executes one statement at a
  time.
\<close>

datatype addDBUser_thread =
    AddUser_Get string string
  | AddUser_Begin string string
  | AddUser_Exec string string
  | AddUser_Commit string string
  | AddUser_Return "bool outcome"

fun addDBUser_step :: "database \<Rightarrow> addDBUser_thread \<Rightarrow> addDBUser_thread \<times> database" where
  "addDBUser_step db (AddUser_Get username password) =
     (let ((_, norows), db1) = getDBUser db username in
      (if norows then AddUser_Begin username password else AddUser_Return (Done False), db1))"
| "addDBUser_step db (AddUser_Begin username password) =
     (let (began, db2) = statement db in
      (if \<not> began then AddUser_Return Panic else AddUser_Exec username password, db2))"
| "addDBUser_step db (AddUser_Exec username password) =
     (let (inserted, db3) = statement db in
      (if \<not> inserted then AddUser_Return Panic else AddUser_Commit username password, db3))"
| "addDBUser_step db (AddUser_Commit username password) =
     (let (committed, db4) = statement db in
      (AddUser_Return (Done True), if committed then insert_user db4 username password else db4))"
| "addDBUser_step db (AddUser_Return r) = (AddUser_Return r, db)"

datatype updateDBdocument_thread =
    Update_existDoc int64 string requestPosition
  | Update_UPDATE int64 string requestPosition
  | Update_INSERT int64 string requestPosition
  | Update_Return "int64 outcome"

fun updateDBdocument_step ::
  "database \<Rightarrow> updateDBdocument_thread \<Rightarrow> updateDBdocument_thread \<times> database" where
  "updateDBdocument_step db (Update_existDoc nowtime username rPos) =
     (let (exists, db1) = existDoc db username (requestPosition.DocumentID rPos) in
      (if exists then Update_UPDATE nowtime username rPos
       else Update_INSERT nowtime username rPos, db1))"
| "updateDBdocument_step db (Update_UPDATE nowtime username rPos) =
     (let (ok, db2) = update_document db (requestPosition.Percentage rPos)
                (inner (requestPosition.Progress rPos)) (requestPosition.Device rPos)
                (requestPosition.DeviceID rPos) nowtime username (requestPosition.DocumentID rPos)
      in (Update_Return (if \<not> ok then Fatal else Done nowtime), db2))"
| "updateDBdocument_step db (Update_INSERT nowtime username rPos) =
     (let (ok, db2) = insert_document db username (requestPosition.DocumentID rPos)
                (requestPosition.Percentage rPos) (inner (requestPosition.Progress rPos))
                (requestPosition.Device rPos) (requestPosition.DeviceID rPos) nowtime
      in (Update_Return (if \<not> ok then Fatal else Done nowtime), db2))"
| "updateDBdocument_step db (Update_Return r) = (Update_Return r, db)"

text \<open>Two threads under a schedule: \<open>True\<close> lets the first thread execute its next
  statement, \<open>False\<close> the second.\<close>

fun interleave ::
  "(database \<Rightarrow> 't \<Rightarrow> 't \<times> database) \<Rightarrow> bool list \<Rightarrow> database \<Rightarrow> 't \<Rightarrow> 't \<Rightarrow> ('t \<times> 't) \<times> database" where
  "interleave step [] db a b = ((a, b), db)"
| "interleave step (first # schedule) db a b =
     (if first then (let (a', db') = step db a in interleave step schedule db' a' b)
      else (let (b', db') = step db b in interleave step schedule db' a b'))"

section \<open>Lemmas about the storage layer and the handlers\<close>

lemma statement_eq:
  "statement db = (faults db = [] \<or> \<not> hd (faults db), db\<lparr>faults := tl (faults db)\<rparr>)"
  by (cases "faults db") (simp_all add: statement_def)

lemma statement_no_faults: "faults db = [] \<Longrightarrow> statement db = (True, db)"
  by (simp add: statement_def)

lemma db_Get_eq:
  "db_Get db rows =
     (if faults db = [] \<or> \<not> hd (faults db)
      then (case rows of [] \<Rightarrow> Inl ErrNoRows | r # _ \<Rightarrow> Inr r)
      else Inl ErrOther, db\<lparr>faults := tl (faults db)\<rparr>)"
  by (simp add: db_Get_def statement_eq)

lemma db_Get_no_faults:
  "faults db = [] \<Longrightarrow> db_Get db rows = (case rows of [] \<Rightarrow> Inl ErrNoRows | r # _ \<Rightarrow> Inr r, db)"
  by (simp add: db_Get_def statement_no_faults)

lemma snd_getDBUser: "snd (getDBUser db username) = db\<lparr>faults := tl (faults db)\<rparr>"
  by (simp add: getDBUser_def db_Get_eq)

lemma getDBUser_no_faults:
  "faults db = [] \<Longrightarrow>
   getDBUser db username =
     (case filter (\<lambda>r. dbUser.Username r = username) (user db) of
        [] \<Rightarrow> (\<lparr>dbUser.Username = [], dbUser.Password = []\<rparr>, True)
      | r # _ \<Rightarrow> (r, False), db)"
  by (simp add: getDBUser_def db_Get_no_faults split: list.split)

lemma getDBUser_norows:
  "getDBUser db username = ((r, True), db') \<Longrightarrow>
   filter (\<lambda>r. dbUser.Username r = username) (user db) = []"
  by (auto simp: getDBUser_def db_Get_eq split: if_splits list.splits)

lemma getDBUser_found:
  "getDBUser db username = ((r, False), db') \<Longrightarrow> dbUser.Password r \<noteq> [] \<Longrightarrow>
   r \<in> set (user db) \<and> dbUser.Username r = username"
proof -
  assume a: "getDBUser db username = ((r, False), db')" and p: "dbUser.Password r \<noteq> []"
  let ?rows = "filter (\<lambda>r. dbUser.Username r = username) (user db)"
  from a p obtain rest where "?rows = r # rest"
    by (auto simp: getDBUser_def db_Get_eq split: if_splits list.splits)
  then have "r \<in> set ?rows" by simp
  then show ?thesis by simp
qed

lemma snd_existDoc: "snd (existDoc db username docid) = db\<lparr>faults := tl (faults db)\<rparr>"
  by (simp add: existDoc_def db_Get_eq)

lemma existDoc_False:
  "existDoc db username docid = (False, db') \<Longrightarrow>
   filter (\<lambda>r. dbDocument.Username r = username \<and> dbDocument.DocumentID r = docid) (document db) = []"
  by (auto simp: existDoc_def db_Get_eq split: if_splits list.splits)

lemma existDoc_no_faults:
  "faults db = [] \<Longrightarrow>
   existDoc db username docid =
     (filter (\<lambda>r. dbDocument.Username r = username \<and> dbDocument.DocumentID r = docid) (document db) \<noteq> [], db)"
  by (simp add: existDoc_def db_Get_no_faults split: list.split)

lemma snd_getDBPosition: "snd (getDBPosition db username documentid) = db\<lparr>faults := tl (faults db)\<rparr>"
  by (simp add: getDBPosition_def db_Get_eq)

lemma addDBUser_tables:
  assumes "addDBUser db username password = (res, db')"
  shows "document db' = document db"
    and "user db' = user db \<or>
         (filter (\<lambda>r. dbUser.Username r = username) (user db) = [] \<and> res = Done True \<and>
          user db' = user db @ [\<lparr>dbUser.Username = username, dbUser.Password = password\<rparr>])"
proof -
  obtain r norows where g: "getDBUser db username = ((r, norows), db\<lparr>faults := tl (faults db)\<rparr>)"
    by (metis snd_getDBUser prod.collapse)
  show "document db' = document db"
    using assms g
    by (auto simp: addDBUser_def statement_eq insert_user_def Let_def split: if_splits)
  show "user db' = user db \<or>
         (filter (\<lambda>r. dbUser.Username r = username) (user db) = [] \<and> res = Done True \<and>
          user db' = user db @ [\<lparr>dbUser.Username = username, dbUser.Password = password\<rparr>])"
  proof (cases norows)
    case True
    with g have "filter (\<lambda>r. dbUser.Username r = username) (user db) = []"
      by (simp add: getDBUser_norows)
    with assms g True show ?thesis
      by (auto simp: addDBUser_def statement_eq insert_user_def Let_def split: if_splits)
  next
    case False
    with assms g show ?thesis
      by (auto simp: addDBUser_def)
  qed
qed

lemma addDBUser_no_faults:
  "faults db = [] \<Longrightarrow>
   addDBUser db username password =
     (if filter (\<lambda>r. dbUser.Username r = username) (user db) = []
      then (Done True, insert_user db username password)
      else (Done False, db))"
  by (simp add: addDBUser_def getDBUser_no_faults statement_no_faults split: list.split)

lemma updateDBdocument_user:
  "updateDBdocument db nowtime username rPos = (res, db') \<Longrightarrow> user db' = user db"
  by (cases "existDoc db username (requestPosition.DocumentID rPos)")
     (auto simp: updateDBdocument_def update_document_def insert_document_def statement_eq
        dest!: arg_cong[where f=snd] simp: snd_existDoc split: if_splits)

lemma map_key_update:
  "map (\<lambda>r. (dbDocument.Username r, dbDocument.DocumentID r))
     (map (\<lambda>r. if P r then r\<lparr>dbDocument.Percentage := perc, dbDocument.Progress := prog,
                 dbDocument.Device := dev, dbDocument.DeviceID := devid,
                 dbDocument.Timestamp := t\<rparr> else r) xs)
   = map (\<lambda>r. (dbDocument.Username r, dbDocument.DocumentID r)) xs"
  by (induction xs) auto

lemma key_comp_update:
  "(\<lambda>r. (dbDocument.Username r, dbDocument.DocumentID r)) \<circ>
     (\<lambda>r. if P r then r\<lparr>dbDocument.Percentage := perc, dbDocument.Progress := prog,
                 dbDocument.Device := dev, dbDocument.DeviceID := devid,
                 dbDocument.Timestamp := t\<rparr> else r)
   = (\<lambda>r. (dbDocument.Username r, dbDocument.DocumentID r))"
  by (auto simp: fun_eq_iff)

lemma key_not_in_table:
  "filter (\<lambda>r. dbDocument.Username r = u \<and> dbDocument.DocumentID r = d) xs = [] \<Longrightarrow>
   (u, d) \<notin> set (map (\<lambda>r. (dbDocument.Username r, dbDocument.DocumentID r)) xs)"
  by (auto simp: filter_empty_conv)

lemma update_document_eq:
  "update_document db perc prog dev devid t username docid =
     (if faults db = [] \<or> \<not> hd (faults db)
      then (True, db\<lparr>faults := tl (faults db), document :=
        map (\<lambda>r. if dbDocument.Username r = username \<and> dbDocument.DocumentID r = docid
                  then r\<lparr>dbDocument.Percentage := REAL_column perc, dbDocument.Progress := prog,
                         dbDocument.Device := dev, dbDocument.DeviceID := devid,
                         dbDocument.Timestamp := t\<rparr>
                  else r) (document db)\<rparr>)
      else (False, db\<lparr>faults := tl (faults db)\<rparr>))"
  by (simp add: update_document_def statement_eq)

lemma insert_document_eq:
  "insert_document db username docid perc prog dev devid t =
     (if faults db = [] \<or> \<not> hd (faults db)
      then (True, db\<lparr>faults := tl (faults db), document := document db @
        [\<lparr>dbDocument.Username = username, dbDocument.DocumentID = docid,
          dbDocument.Percentage = REAL_column perc, dbDocument.Progress = prog, dbDocument.Device = dev,
          dbDocument.DeviceID = devid, dbDocument.Timestamp = t\<rparr>]\<rparr>)
      else (False, db\<lparr>faults := tl (faults db)\<rparr>))"
  by (simp add: insert_document_def statement_eq)

lemma updateDBdocument_unique_keys:
  assumes "unique_keys db" and "updateDBdocument db nowtime username rPos = (res, db')"
  shows "unique_keys db'"
proof -
  let ?d = "requestPosition.DocumentID rPos"
  obtain ex where e: "existDoc db username ?d = (ex, db\<lparr>faults := tl (faults db)\<rparr>)"
    by (metis snd_existDoc prod.collapse)
  show ?thesis
  proof (cases ex)
    case True
    with assms e show ?thesis
      by (auto simp: updateDBdocument_def update_document_eq unique_keys_def key_comp_update
            split: if_splits)
  next
    case False
    with e have "filter (\<lambda>r. dbDocument.Username r = username \<and> dbDocument.DocumentID r = ?d) (document db) = []"
      by (simp add: existDoc_False)
    then have "(username, ?d) \<notin> set (map (\<lambda>r. (dbDocument.Username r, dbDocument.DocumentID r)) (document db))"
      by (rule key_not_in_table)
    with assms e False show ?thesis
      by (auto simp: updateDBdocument_def insert_document_eq unique_keys_def split: if_splits)
  qed
qed

lemma updateDBdocument_no_faults:
  "faults db = [] \<Longrightarrow>
   updateDBdocument db nowtime username rPos =
     (Done nowtime,
      if position_rows db username (requestPosition.DocumentID rPos) \<noteq> []
      then db\<lparr>document :=
        map (\<lambda>r. if dbDocument.Username r = username \<and> dbDocument.DocumentID r = requestPosition.DocumentID rPos
                  then r\<lparr>dbDocument.Percentage := REAL_column (requestPosition.Percentage rPos),
                         dbDocument.Progress := inner (requestPosition.Progress rPos),
                         dbDocument.Device := requestPosition.Device rPos,
                         dbDocument.DeviceID := requestPosition.DeviceID rPos,
                         dbDocument.Timestamp := nowtime\<rparr>
                  else r) (document db)\<rparr>
      else db\<lparr>document := document db @
        [\<lparr>dbDocument.Username = username, dbDocument.DocumentID = requestPosition.DocumentID rPos,
          dbDocument.Percentage = REAL_column (requestPosition.Percentage rPos),
          dbDocument.Progress = inner (requestPosition.Progress rPos),
          dbDocument.Device = requestPosition.Device rPos,
          dbDocument.DeviceID = requestPosition.DeviceID rPos,
          dbDocument.Timestamp = nowtime\<rparr>]\<rparr>)"
  by (simp add: updateDBdocument_def existDoc_no_faults update_document_eq insert_document_eq
        position_rows_def)

lemma filter_key_update:
  "filter (\<lambda>r. dbDocument.Username r = u \<and> dbDocument.DocumentID r = d)
     (map (\<lambda>r. if dbDocument.Username r = u \<and> dbDocument.DocumentID r = d
               then r\<lparr>dbDocument.Percentage := perc, dbDocument.Progress := prog,
                      dbDocument.Device := dev, dbDocument.DeviceID := devid,
                      dbDocument.Timestamp := t\<rparr>
               else r) xs)
   = map (\<lambda>r. \<lparr>dbDocument.Username = u, dbDocument.DocumentID = d,
                 dbDocument.Percentage = perc, dbDocument.Progress = prog,
                 dbDocument.Device = dev, dbDocument.DeviceID = devid,
                 dbDocument.Timestamp = t\<rparr>)
       (filter (\<lambda>r. dbDocument.Username r = u \<and> dbDocument.DocumentID r = d) xs)"
  by (induction xs) auto

text \<open>After a write without faults, the rows of the key all hold the written values.\<close>

lemma updateDBdocument_position_rows:
  assumes "faults db = []" and "updateDBdocument db nowtime username rPos = (res, db')"
  shows "position_rows db' username (requestPosition.DocumentID rPos) =
     replicate (max 1 (length (position_rows db username (requestPosition.DocumentID rPos))))
       \<lparr>dbDocument.Username = username, dbDocument.DocumentID = requestPosition.DocumentID rPos,
        dbDocument.Percentage = REAL_column (requestPosition.Percentage rPos),
        dbDocument.Progress = inner (requestPosition.Progress rPos),
        dbDocument.Device = requestPosition.Device rPos,
        dbDocument.DeviceID = requestPosition.DeviceID rPos,
        dbDocument.Timestamp = nowtime\<rparr>"
proof (cases "position_rows db username (requestPosition.DocumentID rPos) = []")
  case True
  with assms show ?thesis
    by (auto simp: updateDBdocument_no_faults position_rows_def)
next
  case False
  then have "max 1 (length (position_rows db username (requestPosition.DocumentID rPos)))
      = length (position_rows db username (requestPosition.DocumentID rPos))"
    by (cases "position_rows db username (requestPosition.DocumentID rPos)") simp_all
  with assms False show ?thesis
    by (auto simp: updateDBdocument_no_faults position_rows_def filter_key_update map_replicate_const)
qed

lemma updateDBdocument_result:
  assumes "faults db = []" and "updateDBdocument db nowtime username rPos = (res, db')"
  shows "res = Done nowtime" and "faults db' = []" and "user db' = user db"
  using assms by (auto simp: updateDBdocument_no_faults split: if_splits)

lemma getDBPosition_no_rows:
  "faults db = [] \<Longrightarrow> position_rows db username documentid = [] \<Longrightarrow>
   getDBPosition db username documentid = (Inl ErrNoRows, db)"
  by (simp add: getDBPosition_def db_Get_no_faults position_rows_def)

lemma getDBPosition_replicate:
  assumes "faults db = []" and "position_rows db username documentid = replicate (Suc n) row"
  shows "getDBPosition db username documentid =
     (Inr \<lparr>requestPosition.Timestamp = dbDocument.Timestamp row,
           requestPosition.DocumentID = documentid,
           requestPosition.Progress = \<lparr>inner = dbDocument.Progress row\<rparr>,
           requestPosition.Device = dbDocument.Device row,
           requestPosition.Percentage = dbDocument.Percentage row,
           requestPosition.DeviceID = dbDocument.DeviceID row\<rparr>, db)"
proof -
  have "sorted (map (\<lambda>r. - dbDocument.Timestamp r) (replicate (Suc n) row))"
    by (simp add: sorted_replicate del: replicate_Suc)
  then have "sort_key (\<lambda>r. - dbDocument.Timestamp r) (replicate (Suc n) row) = replicate (Suc n) row"
    by (rule sort_key_id_if_sorted)
  with assms show ?thesis
    by (simp add: getDBPosition_def db_Get_no_faults position_rows_def [symmetric])
qed

lemma register_tables:
  assumes "register db body = (res, db')"
  shows "document db' = document db"
    and "unique_usernames db \<Longrightarrow> unique_usernames db'"
proof -
  show "document db' = document db"
    using assms
    by (auto simp: register_def split: option.splits if_splits prod.splits outcome.splits
          dest: addDBUser_tables(1))
  assume u: "unique_usernames db"
  show "unique_usernames db'"
  proof (cases body)
    case None
    with assms u show ?thesis by (simp add: register_def)
  next
    case (Some rUser)
    show ?thesis
    proof (cases "requestUser.Username rUser = [] \<or> requestUser.Password rUser = []")
      case True
      with assms u Some show ?thesis by (auto simp: register_def)
    next
      case False
      obtain r d where a: "addDBUser db (requestUser.Username rUser) (requestUser.Password rUser) = (r, d)"
        by (cases "addDBUser db (requestUser.Username rUser) (requestUser.Password rUser)")
      with assms Some False have "d = db'"
        by (auto simp: register_def split: outcome.splits if_splits)
      with addDBUser_tables(2)[OF a] u show ?thesis
        by (fastforce simp: unique_usernames_def filter_empty_conv)
    qed
  qed
qed

lemma AuthRequired_snd:
  "snd (AuthRequired db header) = db \<or> snd (AuthRequired db header) = db\<lparr>faults := tl (faults db)\<rparr>"
proof (cases "validKeyField (AuthUser header) \<and> length (AuthKey header) > 0")
  case True
  obtain r norows where "getDBUser db (AuthUser header) = ((r, norows), db\<lparr>faults := tl (faults db)\<rparr>)"
    by (metis snd_getDBUser prod.collapse)
  with True show ?thesis by (simp add: AuthRequired_def)
next
  case False
  then show ?thesis by (auto simp: AuthRequired_def)
qed

lemma AuthRequired_tables:
  "AuthRequired db header = (res, db') \<Longrightarrow> user db' = user db \<and> document db' = document db"
  using AuthRequired_snd[of db header] by auto

lemma getProgress_tables:
  "getProgress db username d = (res, db') \<Longrightarrow> user db' = user db \<and> document db' = document db"
proof -
  assume a: "getProgress db username d = (res, db')"
  obtain r where "getDBPosition db username d = (r, db\<lparr>faults := tl (faults db)\<rparr>)"
    by (metis snd_getDBPosition prod.collapse)
  with a show ?thesis
    by (auto simp: getProgress_def split: if_splits sum.splits)
qed

lemma updateProgress_tables:
  assumes "updateProgress db nowtime username body = (res, db')"
  shows "user db' = user db" and "unique_keys db \<Longrightarrow> unique_keys db'"
proof -
  show "user db' = user db"
    using assms
    by (auto simp: updateProgress_def split: option.splits if_splits prod.splits outcome.splits
          dest: updateDBdocument_user)
  assume "unique_keys db"
  with assms show "unique_keys db'"
    by (auto simp: updateProgress_def split: option.splits if_splits prod.splits outcome.splits
          dest: updateDBdocument_unique_keys)
qed

lemma unique_usernames_cong: "user db' = user db \<Longrightarrow> unique_usernames db' = unique_usernames db"
  by (simp add: unique_usernames_def)

lemma unique_keys_cong: "document db' = document db \<Longrightarrow> unique_keys db' = unique_keys db"
  by (simp add: unique_keys_def)

lemma authorized_tables:
  assumes "authorized db header handler = (res, db')"
    and "\<And>d r d'. user d = user db \<Longrightarrow> document d = document db \<Longrightarrow> handler d = (r, d') \<Longrightarrow>
           user d' = user db \<and> (unique_keys db \<longrightarrow> unique_keys d')"
  shows "user db' = user db \<and> (unique_keys db \<longrightarrow> unique_keys db')"
proof -
  obtain a d where au: "AuthRequired db header = (a, d)"
    by (cases "AuthRequired db header")
  then have t: "user d = user db" "document d = document db"
    by (auto dest: AuthRequired_tables)
  show ?thesis
  proof (cases a)
    case (Inl e)
    with assms(1) au have "db' = d" by (simp add: authorized_def)
    with t show ?thesis by (simp add: unique_keys_def)
  next
    case (Inr u)
    with assms(1) au have "handler d = (res, db')" by (simp add: authorized_def)
    with t show ?thesis by (rule assms(2))
  qed
qed

lemma router_invariants:
  assumes "router db nowtime hdr rt = (res, db')"
  shows "unique_usernames db \<Longrightarrow> unique_usernames db'" and "unique_keys db \<Longrightarrow> unique_keys db'"
proof -
  have "(unique_usernames db \<longrightarrow> unique_usernames db') \<and> (unique_keys db \<longrightarrow> unique_keys db')"
  proof (cases "AcceptHeaderCheck hdr")
    case (Inl err)
    with assms show ?thesis by (simp add: router_def)
  next
    case (Inr header)
    show ?thesis
    proof (cases rt)
      case GET_healthcheck
      with assms Inr show ?thesis by (simp add: router_def)
    next
      case (POST_users_create b)
      with assms Inr show ?thesis
        by (auto simp: router_def unique_keys_def dest: register_tables)
    next
      case GET_users_auth
      with assms Inr have "authorized db header (\<lambda>db'. (Done authorize, db')) = (res, db')"
        by (simp add: router_def)
      then have "user db' = user db \<and> (unique_keys db \<longrightarrow> unique_keys db')"
        by (rule authorized_tables) (simp add: unique_keys_def)
      then show ?thesis by (simp add: unique_usernames_def)
    next
      case (GET_syncs_progress d)
      with assms Inr have "authorized db header (\<lambda>db'. getProgress db' (AuthUser header) d) = (res, db')"
        by (simp add: router_def)
      then have "user db' = user db \<and> (unique_keys db \<longrightarrow> unique_keys db')"
        by (rule authorized_tables) (auto simp: unique_keys_def dest: getProgress_tables)
      then show ?thesis by (simp add: unique_usernames_def)
    next
      case (PUT_syncs_progress b)
      with assms Inr
      have "authorized db header (\<lambda>db'. updateProgress db' nowtime (AuthUser header) b) = (res, db')"
        by (simp add: router_def)
      then have "user db' = user db \<and> (unique_keys db \<longrightarrow> unique_keys db')"
      proof (rule authorized_tables)
        fix d r d'
        assume t: "user d = user db" "document d = document db"
          and u: "updateProgress d nowtime (AuthUser header) b = (r, d')"
        from t(2) have "unique_keys d = unique_keys db" by (rule unique_keys_cong)
        with updateProgress_tables [OF u] t(1)
        show "user d' = user db \<and> (unique_keys db \<longrightarrow> unique_keys d')" by simp
      qed
      then show ?thesis by (simp add: unique_usernames_def)
    qed
  qed
  then show "unique_usernames db \<Longrightarrow> unique_usernames db'" and "unique_keys db \<Longrightarrow> unique_keys db'"
    by simp_all
qed

lemma serve_router: "snd (serve db nowtime hdr rt) = snd (router db nowtime hdr rt)"
  by (simp add: serve_def split: prod.split outcome.split)

lemma sequentially_reachable_unique: "sequentially_reachable db \<Longrightarrow> unique_usernames db \<and> unique_keys db"
proof (induction rule: sequentially_reachable.induct)
  case (init fs)
  show ?case by (simp add: unique_usernames_def unique_keys_def)
next
  case (request db nowtime hdr rt resp db')
  from request.hyps(2) have "router db nowtime hdr rt = (fst (router db nowtime hdr rt), db')"
    using serve_router[of db nowtime hdr rt] by (metis prod.collapse snd_conv)
  with request.IH show ?case
    by (blast dest: router_invariants)
next
  case (engine db fs)
  then show ?case by (simp add: unique_usernames_def unique_keys_def)
qed

lemma distinct_key_filter:
  "distinct (map f xs) \<Longrightarrow> length (filter (\<lambda>r. f r = k) xs) \<le> 1"
  by (induction xs) (auto simp: filter_empty_conv image_iff)

section \<open>Push and pull\<close>

lemma ShouldBindJSON_fields:
  assumes "ShouldBindJSON (Some b) = Some rPos"
  shows "requestPosition.DocumentID rPos = document_member b"
    and "requestPosition.Device rPos = device b"
    and "requestPosition.Percentage rPos = percentage b"
    and "requestPosition.DeviceID rPos = device_id b"
    and "requestPosition.Timestamp rPos = timestamp b"
  using assms by (auto simp: ShouldBindJSON_def split: option.splits)

lemma ShouldBindJSON_client_timestamp:
  "ShouldBindJSON (Some (b\<lparr>timestamp := t\<rparr>))
   = map_option (\<lambda>p. p\<lparr>requestPosition.Timestamp := t\<rparr>) (ShouldBindJSON (Some b))"
  by (simp add: ShouldBindJSON_def UnmarshalJSON_progress_def split: option.split)

lemma updateDBdocument_timestamp:
  "updateDBdocument db nowtime username (rPos\<lparr>requestPosition.Timestamp := t\<rparr>)
   = updateDBdocument db nowtime username rPos"
  by (simp add: updateDBdocument_def Let_def split: prod.split)

lemma updateProgress_client_timestamp:
  "updateProgress db nowtime username (Some (b\<lparr>timestamp := t\<rparr>))
   = updateProgress db nowtime username (Some b)"
proof (cases "ShouldBindJSON (Some b)")
  case None
  then show ?thesis
    by (simp add: updateProgress_def ShouldBindJSON_client_timestamp)
next
  case (Some p)
  then show ?thesis
    by (simp add: updateProgress_def ShouldBindJSON_client_timestamp updateDBdocument_timestamp
          split: prod.split outcome.split)
qed

lemma updateProgress_written:
  assumes "updateProgress db nowtime username body = (Done (Inr resp), db')"
  obtains rPos updatetime where "ShouldBindJSON body = Some rPos"
    and "validKeyField (requestPosition.DocumentID rPos)"
    and "inner (requestPosition.Progress rPos) \<noteq> []"
    and "requestPosition.Device rPos \<noteq> []"
    and "updateDBdocument db nowtime username rPos = (Done updatetime, db')"
    and "resp = Response 200 (ReplyJSON \<lparr>replyPosition.Timestamp = updatetime,
            replyPosition.DocumentID = requestPosition.DocumentID rPos\<rparr>)"
  using assms
  by (auto simp: updateProgress_def split: option.splits if_splits prod.splits outcome.splits)

lemma position_rows_at_most_one:
  assumes "unique_keys db"
  shows "length (position_rows db u d) \<le> 1"
proof -
  have "position_rows db u d =
      filter (\<lambda>r. (dbDocument.Username r, dbDocument.DocumentID r) = (u, d)) (document db)"
    by (simp add: position_rows_def)
  moreover have "length (filter (\<lambda>r. (dbDocument.Username r, dbDocument.DocumentID r) = (u, d))
      (document db)) \<le> 1"
    using assms unfolding unique_keys_def by (rule distinct_key_filter)
  ultimately show ?thesis by simp
qed

text \<open>
  C7, as the code has it. The validation of a push stops at the first failing check,
  in this order. A body that does not bind (it is not a JSON object of the shape, or
  its \<open>progress\<close> is neither an integer nor a string) gives \<open>InvalidRequest\<close> before
  any other check. For a body that binds: a \<open>document\<close> member that is empty or holds
  a \<open>:\<close> gives \<open>DocumentIdNotProvided\<close>, whatever the decoded \<open>progress\<close> and \<open>device\<close>
  are, also when they are empty; only a valid \<open>document\<close> with an empty \<open>progress\<close> or
  an empty \<open>device\<close> gives \<open>InvalidRequest\<close>. In all three cases the store that comes
  back is the store that went in: no statement has reached the engine.
\<close>

theorem push_validation_order:
  "(ShouldBindJSON body = Some rPosition \<and>
      (requestPosition.DocumentID rPosition = [] \<or> CHR '':'' \<in> set (requestPosition.DocumentID rPosition))
      \<longrightarrow> updateProgress db nowtime username body = (Done (Inl DocumentIdNotProvided), db))
   \<and> (ShouldBindJSON body = Some rPosition \<and>
      requestPosition.DocumentID rPosition \<noteq> [] \<and> CHR '':'' \<notin> set (requestPosition.DocumentID rPosition)
      \<and> (inner (requestPosition.Progress rPosition) = [] \<or> requestPosition.Device rPosition = [])
      \<longrightarrow> updateProgress db nowtime username body = (Done (Inl InvalidRequest), db))
   \<and> (ShouldBindJSON body = None
      \<longrightarrow> updateProgress db nowtime username body = (Done (Inl InvalidRequest), db))"
  by (auto simp: updateProgress_def validKeyField_def)

theorem push_validation_order_witness:
  "updateProgress \<lparr>user = [], document = [], faults = []\<rparr> 0 ''alice''
       (Some \<lparr>timestamp = 0, document_member = ''a:b'', progress = None, device = [],
          percentage = 0, device_id = []\<rparr>)
     = (Done (Inl DocumentIdNotProvided), \<lparr>user = [], document = [], faults = []\<rparr>)
   \<and> updateProgress \<lparr>user = [], document = [], faults = []\<rparr> 0 ''alice''
       (Some \<lparr>timestamp = 0, document_member = ''ab'', progress = None, device = ''phone'',
          percentage = 0, device_id = []\<rparr>)
     = (Done (Inl InvalidRequest), \<lparr>user = [], document = [], faults = []\<rparr>)
   \<and> updateProgress \<lparr>user = [], document = [], faults = []\<rparr> 0 ''alice''
       (Some \<lparr>timestamp = 0, document_member = [], progress = Some (JBool True), device = [],
          percentage = 0, device_id = []\<rparr>)
     = (Done (Inl InvalidRequest), \<lparr>user = [], document = [], faults = []\<rparr>)"
proof -
  let ?db = "\<lparr>user = [], document = [], faults = []\<rparr>"
  let ?b1 = "\<lparr>timestamp = 0, document_member = ''a:b'', progress = None, device = [],
          percentage = 0, device_id = []\<rparr>"
  let ?r1 = "\<lparr>requestPosition.Timestamp = 0, requestPosition.DocumentID = ''a:b'',
         requestPosition.Progress = \<lparr>inner = []\<rparr>, requestPosition.Device = [],
         requestPosition.Percentage = 0, requestPosition.DeviceID = []\<rparr>"
  let ?b2 = "\<lparr>timestamp = 0, document_member = ''ab'', progress = None, device = ''phone'',
          percentage = 0, device_id = []\<rparr>"
  let ?r2 = "\<lparr>requestPosition.Timestamp = 0, requestPosition.DocumentID = ''ab'',
         requestPosition.Progress = \<lparr>inner = []\<rparr>, requestPosition.Device = ''phone'',
         requestPosition.Percentage = 0, requestPosition.DeviceID = []\<rparr>"
  let ?b3 = "\<lparr>timestamp = 0, document_member = [], progress = Some (JBool True), device = [],
          percentage = 0, device_id = []\<rparr>"
  have h1: "ShouldBindJSON (Some ?b1) = Some ?r1"
    and h2: "ShouldBindJSON (Some ?b2) = Some ?r2"
    and h3: "ShouldBindJSON (Some ?b3) = None"
    by (simp_all add: ShouldBindJSON_def UnmarshalJSON_progress_def UnmarshalJSON_def
          Unmarshal_int_def Unmarshal_string_def)
  from push_validation_order [where body = "Some ?b1" and rPosition = ?r1 and db = ?db
      and nowtime = 0 and username = "''alice''"] h1
  have 1: "updateProgress ?db 0 ''alice'' (Some ?b1) = (Done (Inl DocumentIdNotProvided), ?db)"
    by simp
  from push_validation_order [where body = "Some ?b2" and rPosition = ?r2 and db = ?db
      and nowtime = 0 and username = "''alice''"] h2
  have 2: "updateProgress ?db 0 ''alice'' (Some ?b2) = (Done (Inl InvalidRequest), ?db)"
    by simp
  from push_validation_order [where body = "Some ?b3" and db = ?db
      and nowtime = 0 and username = "''alice''"] h3
  have 3: "updateProgress ?db 0 ''alice'' (Some ?b3) = (Done (Inl InvalidRequest), ?db)"
    by simp
  from 1 2 3 show ?thesis by simp
qed

text \<open>
  The claim as the specification words it puts the check of \<open>document\<close> first. The code
  binds the body first: a push whose \<open>document\<close> is \<open>a:b\<close> and whose \<open>progress\<close> is the
  number \<open>42.5\<close>, which \<open>UnmarshalJSON\<close> decodes neither as an integer nor as a string,
  is answered with \<open>InvalidRequest\<close> (code 2003), not with \<open>DocumentIdNotProvided\<close>
  (code 2004); so is one whose \<open>document\<close> is empty.
\<close>

theorem push_validation_order_counterexample:
  "updateProgress \<lparr>user = [], document = [], faults = []\<rparr> 0 ''alice''
       (Some \<lparr>timestamp = 0, document_member = ''a:b'', progress = Some (JNumber ''42.5''),
          device = ''phone'', percentage = 0, device_id = ''d1''\<rparr>)
     = (Done (Inl InvalidRequest), \<lparr>user = [], document = [], faults = []\<rparr>)
   \<and> updateProgress \<lparr>user = [], document = [], faults = []\<rparr> 0 ''alice''
       (Some \<lparr>timestamp = 0, document_member = [], progress = Some (JNumber ''42.5''),
          device = ''phone'', percentage = 0, device_id = ''d1''\<rparr>)
     = (Done (Inl InvalidRequest), \<lparr>user = [], document = [], faults = []\<rparr>)
   \<and> Code InvalidRequest = 2003 \<and> Code DocumentIdNotProvided = 2004
   \<and> InvalidRequest \<noteq> DocumentIdNotProvided"
  by (simp add: updateProgress_def ShouldBindJSON_def UnmarshalJSON_progress_def UnmarshalJSON_def
        Unmarshal_int_def Unmarshal_string_def ParseInt_def is_digit_def InvalidRequest_def
        DocumentIdNotProvided_def)

text \<open>Whatever the engine does, a write that returns has stamped every row of the key
  with the reading of the clock, and returns that reading.\<close>

lemma updateDBdocument_cases:
  assumes "updateDBdocument db nowtime username rPos = (Done t, db')"
  shows "t = nowtime \<and>
    ((\<exists>fs. db' = db\<lparr>faults := fs, document :=
        map (\<lambda>r. if dbDocument.Username r = username \<and> dbDocument.DocumentID r = requestPosition.DocumentID rPos
                  then r\<lparr>dbDocument.Percentage := REAL_column (requestPosition.Percentage rPos),
                         dbDocument.Progress := inner (requestPosition.Progress rPos),
                         dbDocument.Device := requestPosition.Device rPos,
                         dbDocument.DeviceID := requestPosition.DeviceID rPos,
                         dbDocument.Timestamp := nowtime\<rparr>
                  else r) (document db)\<rparr>)
     \<or> (position_rows db username (requestPosition.DocumentID rPos) = [] \<and>
        (\<exists>fs. db' = db\<lparr>faults := fs, document := document db @
        [\<lparr>dbDocument.Username = username, dbDocument.DocumentID = requestPosition.DocumentID rPos,
          dbDocument.Percentage = REAL_column (requestPosition.Percentage rPos),
          dbDocument.Progress = inner (requestPosition.Progress rPos),
          dbDocument.Device = requestPosition.Device rPos,
          dbDocument.DeviceID = requestPosition.DeviceID rPos,
          dbDocument.Timestamp = nowtime\<rparr>]\<rparr>)))"
proof -
  let ?d = "requestPosition.DocumentID rPos"
  obtain ex where e: "existDoc db username ?d = (ex, db\<lparr>faults := tl (faults db)\<rparr>)"
    by (metis snd_existDoc prod.collapse)
  show ?thesis
  proof (cases ex)
    case True
    let ?db1 = "db\<lparr>faults := tl (faults db)\<rparr>"
    from assms e True have u: "(let (ok, db2) = update_document ?db1 (requestPosition.Percentage rPos)
                (inner (requestPosition.Progress rPos)) (requestPosition.Device rPos)
                (requestPosition.DeviceID rPos) nowtime username ?d
         in if \<not> ok then (Fatal, db2) else (Done nowtime, db2)) = (Done t, db')"
      by (simp add: updateDBdocument_def)
    show ?thesis
    proof (cases "faults ?db1 = [] \<or> \<not> hd (faults ?db1)")
      case True
      with u show ?thesis by (simp add: update_document_eq) blast
    next
      case False
      with u show ?thesis by (simp add: update_document_eq)
    qed
  next
    case False
    let ?db1 = "db\<lparr>faults := tl (faults db)\<rparr>"
    from e False have n: "position_rows db username ?d = []"
      by (simp add: existDoc_False position_rows_def)
    from assms e False have u: "(let (ok, db2) = insert_document ?db1 username ?d
                (requestPosition.Percentage rPos) (inner (requestPosition.Progress rPos))
                (requestPosition.Device rPos) (requestPosition.DeviceID rPos) nowtime
         in if \<not> ok then (Fatal, db2) else (Done nowtime, db2)) = (Done t, db')"
      by (simp add: updateDBdocument_def)
    show ?thesis
    proof (cases "faults ?db1 = [] \<or> \<not> hd (faults ?db1)")
      case True
      with u n show ?thesis by (simp add: insert_document_eq) blast
    next
      case False
      with u show ?thesis by (simp add: insert_document_eq)
    qed
  qed
qed

lemma updateDBdocument_Done:
  assumes "updateDBdocument db nowtime username rPos = (Done t, db')"
  shows "t = nowtime"
    and "\<forall>r \<in> set (position_rows db' username (requestPosition.DocumentID rPos)).
           dbDocument.Timestamp r = nowtime"
proof -
  note c = updateDBdocument_cases [OF assms]
  from c show "t = nowtime" by simp
  from c show "\<forall>r \<in> set (position_rows db' username (requestPosition.DocumentID rPos)).
           dbDocument.Timestamp r = nowtime"
  proof (elim conjE disjE exE)
    fix fs
    assume "db' = db\<lparr>faults := fs, document :=
        map (\<lambda>r. if dbDocument.Username r = username \<and> dbDocument.DocumentID r = requestPosition.DocumentID rPos
                  then r\<lparr>dbDocument.Percentage := REAL_column (requestPosition.Percentage rPos),
                         dbDocument.Progress := inner (requestPosition.Progress rPos),
                         dbDocument.Device := requestPosition.Device rPos,
                         dbDocument.DeviceID := requestPosition.DeviceID rPos,
                         dbDocument.Timestamp := nowtime\<rparr>
                  else r) (document db)\<rparr>"
    then show ?thesis
      by (simp add: position_rows_def filter_key_update)
  next
    fix fs
    assume "position_rows db username (requestPosition.DocumentID rPos) = []"
      and "db' = db\<lparr>faults := fs, document := document db @
        [\<lparr>dbDocument.Username = username, dbDocument.DocumentID = requestPosition.DocumentID rPos,
          dbDocument.Percentage = REAL_column (requestPosition.Percentage rPos),
          dbDocument.Progress = inner (requestPosition.Progress rPos),
          dbDocument.Device = requestPosition.Device rPos,
          dbDocument.DeviceID = requestPosition.DeviceID rPos,
          dbDocument.Timestamp = nowtime\<rparr>]\<rparr>"
    then show ?thesis
      by (simp add: position_rows_def)
  qed
qed

text \<open>
  C3. A push that is answered with a response has written the reading of the server's
  clock: the response is \<open>{timestamp, document}\<close> with that reading, and every row of
  the key carries that reading; when no statement has failed, the store does hold a
  row for the key. The \<open>timestamp\<close> member of the request changes neither the response
  nor the store: two pushes that differ in it alone give the same result.
\<close>

theorem push_stamps_server_time:
  "updateProgress db nowtime username (Some (b\<lparr>timestamp := t\<rparr>))
     = updateProgress db nowtime username (Some (b\<lparr>timestamp := t'\<rparr>))
   \<and> (updateProgress db nowtime username (Some b) = (Done (Inr resp), db')
        \<longrightarrow> resp = Response 200 (ReplyJSON \<lparr>replyPosition.Timestamp = nowtime,
                      replyPosition.DocumentID = document_member b\<rparr>)
          \<and> (\<forall>r \<in> set (position_rows db' username (document_member b)).
                 dbDocument.Timestamp r = nowtime)
          \<and> (faults db = [] \<longrightarrow> position_rows db' username (document_member b) \<noteq> []))"
proof (intro conjI impI)
  show "updateProgress db nowtime username (Some (b\<lparr>timestamp := t\<rparr>))
     = updateProgress db nowtime username (Some (b\<lparr>timestamp := t'\<rparr>))"
    by (simp add: updateProgress_client_timestamp)
next
  assume a: "updateProgress db nowtime username (Some b) = (Done (Inr resp), db')"
  then obtain rPos updatetime where b: "ShouldBindJSON (Some b) = Some rPos"
    and u: "updateDBdocument db nowtime username rPos = (Done updatetime, db')"
    and r: "resp = Response 200 (ReplyJSON \<lparr>replyPosition.Timestamp = updatetime,
            replyPosition.DocumentID = requestPosition.DocumentID rPos\<rparr>)"
    by (auto elim: updateProgress_written)
  from b have d: "requestPosition.DocumentID rPos = document_member b"
    by (rule ShouldBindJSON_fields)
  from u have t: "updatetime = nowtime"
    by (rule updateDBdocument_Done)
  show "resp = Response 200 (ReplyJSON \<lparr>replyPosition.Timestamp = nowtime,
                      replyPosition.DocumentID = document_member b\<rparr>)"
    using r t d by simp
  show "\<forall>r \<in> set (position_rows db' username (document_member b)). dbDocument.Timestamp r = nowtime"
    using updateDBdocument_Done(2) [OF u] d by simp
  assume f: "faults db = []"
  have "position_rows db' username (requestPosition.DocumentID rPos) =
     replicate (max 1 (length (position_rows db username (requestPosition.DocumentID rPos))))
       \<lparr>dbDocument.Username = username, dbDocument.DocumentID = requestPosition.DocumentID rPos,
        dbDocument.Percentage = REAL_column (requestPosition.Percentage rPos),
        dbDocument.Progress = inner (requestPosition.Progress rPos),
        dbDocument.Device = requestPosition.Device rPos,
        dbDocument.DeviceID = requestPosition.DeviceID rPos,
        dbDocument.Timestamp = nowtime\<rparr>"
    using f u by (rule updateDBdocument_position_rows)
  then show "position_rows db' username (document_member b) \<noteq> []"
    using d by simp
qed

theorem push_stamps_server_time_witness:
  "updateProgress \<lparr>user = [], document = [], faults = []\<rparr> 1700000000 ''alice''
      (Some \<lparr>timestamp = 5, document_member = ''bookA'', progress = Some (JString ''p7''),
         device = ''phone'', percentage = 0, device_id = ''d1''\<rparr>)
     = (Done (Inr (Response 200 (ReplyJSON \<lparr>replyPosition.Timestamp = 1700000000,
                      replyPosition.DocumentID = ''bookA''\<rparr>))),
        \<lparr>user = [], document = [\<lparr>dbDocument.Username = ''alice'', dbDocument.DocumentID = ''bookA'',
            dbDocument.Percentage = 0, dbDocument.Progress = ''p7'', dbDocument.Device = ''phone'',
            dbDocument.DeviceID = ''d1'', dbDocument.Timestamp = 1700000000\<rparr>], faults = []\<rparr>)
   \<and> map dbDocument.Timestamp (position_rows
          \<lparr>user = [], document = [\<lparr>dbDocument.Username = ''alice'', dbDocument.DocumentID = ''bookA'',
            dbDocument.Percentage = 0, dbDocument.Progress = ''p7'', dbDocument.Device = ''phone'',
            dbDocument.DeviceID = ''d1'', dbDocument.Timestamp = 1700000000\<rparr>], faults = []\<rparr>
          ''alice'' ''bookA'') = [1700000000]"
proof -
  let ?db = "\<lparr>user = [], document = [], faults = []\<rparr>"
  let ?b = "\<lparr>timestamp = 5, document_member = ''bookA'', progress = Some (JString ''p7''),
         device = ''phone'', percentage = 0, device_id = ''d1''\<rparr>"
  let ?db' = "\<lparr>user = [], document = [\<lparr>dbDocument.Username = ''alice'', dbDocument.DocumentID = ''bookA'',
            dbDocument.Percentage = 0, dbDocument.Progress = ''p7'', dbDocument.Device = ''phone'',
            dbDocument.DeviceID = ''d1'', dbDocument.Timestamp = 1700000000\<rparr>], faults = []\<rparr>"
  have h: "updateProgress ?db 1700000000 ''alice'' (Some ?b)
     = (Done (Inr (Response 200 (ReplyJSON \<lparr>replyPosition.Timestamp = 1700000000,
                      replyPosition.DocumentID = ''bookA''\<rparr>))), ?db')"
    by (simp add: updateProgress_def ShouldBindJSON_def UnmarshalJSON_progress_def UnmarshalJSON_def Unmarshal_int_def
          Unmarshal_string_def validKeyField_def updateDBdocument_no_faults position_rows_def
          REAL_column_def)
  from push_stamps_server_time [where db = ?db and nowtime = 1700000000 and username = "''alice''"
      and b = ?b and t = 0 and t' = 0 and db' = ?db'
      and resp = "Response 200 (ReplyJSON \<lparr>replyPosition.Timestamp = 1700000000, replyPosition.DocumentID = ''bookA''\<rparr>)"]
  show ?thesis using h by (simp add: position_rows_def)
qed

lemma getProgress_stored:
  assumes "faults db = []" and "d \<noteq> []" and "position_rows db username d = [row]"
  shows "getProgress db username d =
     (Done (Inr (Response 200 (PositionJSON
        \<lparr>timestamp = dbDocument.Timestamp row, document_member = d,
         progress = Some (JString (dbDocument.Progress row)), device = dbDocument.Device row,
         percentage = dbDocument.Percentage row, device_id = dbDocument.DeviceID row\<rparr>))), db)"
proof -
  from assms(3) have "position_rows db username d = replicate (Suc 0) row" by simp
  with assms(1) have "getDBPosition db username d =
     (Inr \<lparr>requestPosition.Timestamp = dbDocument.Timestamp row,
           requestPosition.DocumentID = d,
           requestPosition.Progress = \<lparr>inner = dbDocument.Progress row\<rparr>,
           requestPosition.Device = dbDocument.Device row,
           requestPosition.Percentage = dbDocument.Percentage row,
           requestPosition.DeviceID = dbDocument.DeviceID row\<rparr>, db)"
    by (rule getDBPosition_replicate)
  with assms(2) show ?thesis
    by (simp add: getProgress_def Marshal_requestPosition_def MarshalJSON_def)
qed

lemma push_then_rows:
  assumes "unique_keys db" and "faults db = []"
    and "updateProgress db nowtime username (Some b) = (Done (Inr resp), db')"
  obtains p where "UnmarshalJSON_progress b = Some p"
    and "position_rows db' username (document_member b) =
       [\<lparr>dbDocument.Username = username, dbDocument.DocumentID = document_member b,
         dbDocument.Percentage = REAL_column (percentage b), dbDocument.Progress = inner p,
         dbDocument.Device = device b, dbDocument.DeviceID = device_id b,
         dbDocument.Timestamp = nowtime\<rparr>]"
    and "faults db' = []" and "unique_keys db'" and "document_member b \<noteq> []"
    and "resp = Response 200 (ReplyJSON \<lparr>replyPosition.Timestamp = nowtime,
            replyPosition.DocumentID = document_member b\<rparr>)"
proof -
  from assms(3) obtain rPos updatetime where bind: "ShouldBindJSON (Some b) = Some rPos"
    and valid: "validKeyField (requestPosition.DocumentID rPos)"
    and upd: "updateDBdocument db nowtime username rPos = (Done updatetime, db')"
    and resp: "resp = Response 200 (ReplyJSON \<lparr>replyPosition.Timestamp = updatetime,
            replyPosition.DocumentID = requestPosition.DocumentID rPos\<rparr>)"
    by (auto elim: updateProgress_written)
  note f = ShouldBindJSON_fields [OF bind]
  from bind have p: "UnmarshalJSON_progress b = Some (requestPosition.Progress rPos)"
    by (auto simp: ShouldBindJSON_def UnmarshalJSON_progress_def split: option.splits)
  from assms(2) upd have t: "updatetime = nowtime" and nf: "faults db' = []"
    by (auto dest: updateDBdocument_result)
  from assms(1) upd have uk: "unique_keys db'"
    by (rule updateDBdocument_unique_keys)
  let ?row = "\<lparr>dbDocument.Username = username, dbDocument.DocumentID = document_member b,
         dbDocument.Percentage = REAL_column (percentage b), dbDocument.Progress = inner (requestPosition.Progress rPos),
         dbDocument.Device = device b, dbDocument.DeviceID = device_id b,
         dbDocument.Timestamp = nowtime\<rparr>"
  let ?n = "max 1 (length (position_rows db username (document_member b)))"
  have rows: "position_rows db' username (document_member b) = replicate ?n ?row"
    using updateDBdocument_position_rows [OF assms(2) upd] f by simp
  have "length (position_rows db' username (document_member b)) \<le> 1"
    using uk by (rule position_rows_at_most_one)
  with rows have "?n = 1" by simp
  with rows have one: "position_rows db' username (document_member b) = [?row]" by simp
  from valid f have ne: "document_member b \<noteq> []" by (auto simp: validKeyField_def)
  from resp t f have "resp = Response 200 (ReplyJSON \<lparr>replyPosition.Timestamp = nowtime,
            replyPosition.DocumentID = document_member b\<rparr>)" by simp
  with p one nf uk ne show ?thesis by (rule that)
qed

text \<open>
  C1, as the code has it. In every store the server reaches by serving its requests one
  after another, a key (username, documentId) has at most one row in the table
  \<open>document\<close>. A push for a key that has a row rewrites percentage, progress, device,
  deviceId and timestamp of that row and adds none: after two pushes of one user for one
  document, served one after the other (no statement failing, the clock not going
  backwards between them), the key has exactly one row, it holds the values of the
  second push, the percentage as the \<^verbatim>\<open>REAL\<close> column holds it, a pull returns exactly
  these, and its timestamp is the second reading of the clock, which is at least the
  timestamp the first push returned.
\<close>

theorem position_store_one_row_per_key:
  assumes "sequentially_reachable db" and "faults db = []"
    and "updateProgress db now1 username (Some b1) = (Done (Inr resp1), db1)"
    and "updateProgress db1 now2 username (Some b2) = (Done (Inr resp2), db2)"
    and "document_member b2 = document_member b1"
    and "now1 \<le> now2"
  shows "(\<forall>u d. length (position_rows db u d) \<le> 1 \<and> length (position_rows db1 u d) \<le> 1
             \<and> length (position_rows db2 u d) \<le> 1)
       \<and> (\<exists>p2 pos reply1. UnmarshalJSON_progress b2 = Some p2
            \<and> position_rows db2 username (document_member b1) =
                 [\<lparr>dbDocument.Username = username, dbDocument.DocumentID = document_member b1,
                   dbDocument.Percentage = REAL_column (percentage b2), dbDocument.Progress = inner p2,
                   dbDocument.Device = device b2, dbDocument.DeviceID = device_id b2,
                   dbDocument.Timestamp = now2\<rparr>]
            \<and> getProgress db2 username (document_member b1) =
                 (Done (Inr (Response 200 (PositionJSON pos))), db2)
            \<and> pos = \<lparr>timestamp = now2, document_member = document_member b1,
                     progress = Some (JString (inner p2)), device = device b2,
                     percentage = REAL_column (percentage b2), device_id = device_id b2\<rparr>
            \<and> resp1 = Response 200 (ReplyJSON reply1)
            \<and> replyPosition.Timestamp reply1 = now1
            \<and> replyPosition.Timestamp reply1 \<le> timestamp pos)"
proof -
  from assms(1) have uk: "unique_keys db" by (simp add: sequentially_reachable_unique)
  from uk assms(2,3) obtain p1 where f1: "faults db1 = []" and uk1: "unique_keys db1"
    and r1: "resp1 = Response 200 (ReplyJSON \<lparr>replyPosition.Timestamp = now1,
            replyPosition.DocumentID = document_member b1\<rparr>)"
    by (rule push_then_rows)
  from uk1 f1 assms(4) obtain p2 where p2: "UnmarshalJSON_progress b2 = Some p2"
    and rows: "position_rows db2 username (document_member b2) =
       [\<lparr>dbDocument.Username = username, dbDocument.DocumentID = document_member b2,
         dbDocument.Percentage = REAL_column (percentage b2), dbDocument.Progress = inner p2,
         dbDocument.Device = device b2, dbDocument.DeviceID = device_id b2,
         dbDocument.Timestamp = now2\<rparr>]"
    and f2: "faults db2 = []" and uk2: "unique_keys db2" and ne: "document_member b2 \<noteq> []"
    by (rule push_then_rows)
  have pull: "getProgress db2 username (document_member b2) =
     (Done (Inr (Response 200 (PositionJSON
        \<lparr>timestamp = now2, document_member = document_member b2,
         progress = Some (JString (inner p2)), device = device b2,
         percentage = REAL_column (percentage b2), device_id = device_id b2\<rparr>))), db2)"
    using getProgress_stored [OF f2 ne rows] by simp
  have "\<forall>u d. length (position_rows db u d) \<le> 1 \<and> length (position_rows db1 u d) \<le> 1
             \<and> length (position_rows db2 u d) \<le> 1"
    using uk uk1 uk2 by (blast intro: position_rows_at_most_one)
  with p2 rows pull r1 assms(5,6) show ?thesis by auto
qed

theorem position_store_one_row_per_key_witness:
  "sequentially_reachable \<lparr>user = [], document = [], faults = []\<rparr>
   \<and> updateProgress \<lparr>user = [], document = [], faults = []\<rparr> 100 ''alice''
        (Some \<lparr>timestamp = 0, document_member = ''bookA'', progress = Some (JString ''p7''),
           device = ''phone'', percentage = 1, device_id = ''d1''\<rparr>)
      = (Done (Inr (Response 200 (ReplyJSON \<lparr>replyPosition.Timestamp = 100,
                      replyPosition.DocumentID = ''bookA''\<rparr>))),
         \<lparr>user = [], document = [\<lparr>dbDocument.Username = ''alice'', dbDocument.DocumentID = ''bookA'',
            dbDocument.Percentage = 1, dbDocument.Progress = ''p7'', dbDocument.Device = ''phone'',
            dbDocument.DeviceID = ''d1'', dbDocument.Timestamp = 100\<rparr>], faults = []\<rparr>)
   \<and> updateProgress
        \<lparr>user = [], document = [\<lparr>dbDocument.Username = ''alice'', dbDocument.DocumentID = ''bookA'',
            dbDocument.Percentage = 1, dbDocument.Progress = ''p7'', dbDocument.Device = ''phone'',
            dbDocument.DeviceID = ''d1'', dbDocument.Timestamp = 100\<rparr>], faults = []\<rparr> 200 ''alice''
        (Some \<lparr>timestamp = 0, document_member = ''bookA'', progress = Some (JString ''p9''),
           device = ''tablet'', percentage = 2, device_id = ''d2''\<rparr>)
      = (Done (Inr (Response 200 (ReplyJSON \<lparr>replyPosition.Timestamp = 200,
                      replyPosition.DocumentID = ''bookA''\<rparr>))),
         \<lparr>user = [], document = [\<lparr>dbDocument.Username = ''alice'', dbDocument.DocumentID = ''bookA'',
            dbDocument.Percentage = 2, dbDocument.Progress = ''p9'', dbDocument.Device = ''tablet'',
            dbDocument.DeviceID = ''d2'', dbDocument.Timestamp = 200\<rparr>], faults = []\<rparr>)
   \<and> getProgress
        \<lparr>user = [], document = [\<lparr>dbDocument.Username = ''alice'', dbDocument.DocumentID = ''bookA'',
            dbDocument.Percentage = 2, dbDocument.Progress = ''p9'', dbDocument.Device = ''tablet'',
            dbDocument.DeviceID = ''d2'', dbDocument.Timestamp = 200\<rparr>], faults = []\<rparr> ''alice'' ''bookA''
      = (Done (Inr (Response 200 (PositionJSON
           \<lparr>timestamp = 200, document_member = ''bookA'', progress = Some (JString ''p9''),
            device = ''tablet'', percentage = 2, device_id = ''d2''\<rparr>))),
         \<lparr>user = [], document = [\<lparr>dbDocument.Username = ''alice'', dbDocument.DocumentID = ''bookA'',
            dbDocument.Percentage = 2, dbDocument.Progress = ''p9'', dbDocument.Device = ''tablet'',
            dbDocument.DeviceID = ''d2'', dbDocument.Timestamp = 200\<rparr>], faults = []\<rparr>)"
proof -
  let ?db = "\<lparr>user = [], document = [], faults = []\<rparr>"
  let ?b1 = "\<lparr>timestamp = 0, document_member = ''bookA'', progress = Some (JString ''p7''),
           device = ''phone'', percentage = 1, device_id = ''d1''\<rparr>"
  let ?b2 = "\<lparr>timestamp = 0, document_member = ''bookA'', progress = Some (JString ''p9''),
           device = ''tablet'', percentage = 2, device_id = ''d2''\<rparr>"
  let ?db1 = "\<lparr>user = [], document = [\<lparr>dbDocument.Username = ''alice'', dbDocument.DocumentID = ''bookA'',
            dbDocument.Percentage = 1, dbDocument.Progress = ''p7'', dbDocument.Device = ''phone'',
            dbDocument.DeviceID = ''d1'', dbDocument.Timestamp = 100\<rparr>], faults = []\<rparr>"
  let ?db2 = "\<lparr>user = [], document = [\<lparr>dbDocument.Username = ''alice'', dbDocument.DocumentID = ''bookA'',
            dbDocument.Percentage = 2, dbDocument.Progress = ''p9'', dbDocument.Device = ''tablet'',
            dbDocument.DeviceID = ''d2'', dbDocument.Timestamp = 200\<rparr>], faults = []\<rparr>"
  have r: "sequentially_reachable ?db" by (rule sequentially_reachable.init)
  have f: "faults ?db = []" by simp
  have p1: "updateProgress ?db 100 ''alice'' (Some ?b1)
      = (Done (Inr (Response 200 (ReplyJSON \<lparr>replyPosition.Timestamp = 100,
                      replyPosition.DocumentID = ''bookA''\<rparr>))), ?db1)"
    by (simp add: updateProgress_def ShouldBindJSON_def UnmarshalJSON_progress_def UnmarshalJSON_def
          Unmarshal_int_def Unmarshal_string_def validKeyField_def updateDBdocument_no_faults
          position_rows_def REAL_column_def)
  have p2: "updateProgress ?db1 200 ''alice'' (Some ?b2)
      = (Done (Inr (Response 200 (ReplyJSON \<lparr>replyPosition.Timestamp = 200,
                      replyPosition.DocumentID = ''bookA''\<rparr>))), ?db2)"
    by (simp add: updateProgress_def ShouldBindJSON_def UnmarshalJSON_progress_def UnmarshalJSON_def
          Unmarshal_int_def Unmarshal_string_def validKeyField_def updateDBdocument_no_faults
          position_rows_def REAL_column_def)
  have d: "document_member ?b2 = document_member ?b1" by simp
  have c: "(100::int) \<le> 200" by simp
  from position_store_one_row_per_key [OF r f p1 p2 d c]
  have "getProgress ?db2 ''alice'' ''bookA''
      = (Done (Inr (Response 200 (PositionJSON
           \<lparr>timestamp = 200, document_member = ''bookA'', progress = Some (JString ''p9''),
            device = ''tablet'', percentage = 2, device_id = ''d2''\<rparr>))), ?db2)"
    by (auto simp: UnmarshalJSON_progress_def UnmarshalJSON_def Unmarshal_int_def Unmarshal_string_def
          REAL_column_def)
  with r p1 p2 show ?thesis by simp
qed

text \<open>
  The claim as the specification words it fails on the code in two places. The table
  \<open>document\<close> of a running server can hold two rows for one key: two pushes of
  \<open>alice\<close> for \<open>bookA\<close> whose existence checks both execute before either write end in
  such a store. And a pull does not return every value of the second payload: after a
  push with percentage 1.0 (bit pattern \<open>0x3FF0000000000000\<close>) and a second one with
  percentage -0.0 (bit pattern \<open>0x8000000000000000\<close>), served one after the other, the
  pull returns the percentage +0.0.
\<close>

theorem position_store_counterexample:
  "position_rows
     (snd (interleave updateDBdocument_step [True, False, True, False]
        \<lparr>user = [], document = [], faults = []\<rparr>
        (Update_existDoc 100 ''alice''
           \<lparr>requestPosition.Timestamp = 0, requestPosition.DocumentID = ''bookA'',
            requestPosition.Progress = \<lparr>inner = ''p7''\<rparr>, requestPosition.Device = ''phone'',
            requestPosition.Percentage = 0, requestPosition.DeviceID = ''d1''\<rparr>)
        (Update_existDoc 101 ''alice''
           \<lparr>requestPosition.Timestamp = 0, requestPosition.DocumentID = ''bookA'',
            requestPosition.Progress = \<lparr>inner = ''p9''\<rparr>, requestPosition.Device = ''tablet'',
            requestPosition.Percentage = 0, requestPosition.DeviceID = ''d2''\<rparr>)))
     ''alice'' ''bookA''
   = [\<lparr>dbDocument.Username = ''alice'', dbDocument.DocumentID = ''bookA'',
       dbDocument.Percentage = 0, dbDocument.Progress = ''p7'', dbDocument.Device = ''phone'',
       dbDocument.DeviceID = ''d1'', dbDocument.Timestamp = 100\<rparr>,
      \<lparr>dbDocument.Username = ''alice'', dbDocument.DocumentID = ''bookA'',
       dbDocument.Percentage = 0, dbDocument.Progress = ''p9'', dbDocument.Device = ''tablet'',
       dbDocument.DeviceID = ''d2'', dbDocument.Timestamp = 101\<rparr>]
   \<and> fst (getProgress
       (snd (updateProgress
          (snd (updateProgress \<lparr>user = [], document = [], faults = []\<rparr> 100 ''alice''
             (Some \<lparr>timestamp = 0, document_member = ''bookA'', progress = Some (JString ''p7''),
                device = ''phone'', percentage = 0x3FF0000000000000, device_id = ''d1''\<rparr>)))
          200 ''alice''
          (Some \<lparr>timestamp = 0, document_member = ''bookA'', progress = Some (JString ''p9''),
             device = ''tablet'', percentage = 0x8000000000000000, device_id = ''d2''\<rparr>)))
       ''alice'' ''bookA'')
     = Done (Inr (Response 200 (PositionJSON
         \<lparr>timestamp = 200, document_member = ''bookA'', progress = Some (JString ''p9''),
          device = ''tablet'', percentage = 0, device_id = ''d2''\<rparr>)))
   \<and> (0 :: float64) \<noteq> 0x8000000000000000"
proof -
  let ?db = "\<lparr>user = [], document = [], faults = []\<rparr>"
  let ?db1 = "\<lparr>user = [], document = [\<lparr>dbDocument.Username = ''alice'', dbDocument.DocumentID = ''bookA'',
            dbDocument.Percentage = 0x3FF0000000000000, dbDocument.Progress = ''p7'',
            dbDocument.Device = ''phone'', dbDocument.DeviceID = ''d1'',
            dbDocument.Timestamp = 100\<rparr>], faults = []\<rparr>"
  let ?db2 = "\<lparr>user = [], document = [\<lparr>dbDocument.Username = ''alice'', dbDocument.DocumentID = ''bookA'',
            dbDocument.Percentage = 0, dbDocument.Progress = ''p9'',
            dbDocument.Device = ''tablet'', dbDocument.DeviceID = ''d2'',
            dbDocument.Timestamp = 200\<rparr>], faults = []\<rparr>"
  have 1: "snd (updateProgress ?db 100 ''alice''
             (Some \<lparr>timestamp = 0, document_member = ''bookA'', progress = Some (JString ''p7''),
                device = ''phone'', percentage = 0x3FF0000000000000, device_id = ''d1''\<rparr>)) = ?db1"
    by (simp add: updateProgress_def ShouldBindJSON_def UnmarshalJSON_progress_def UnmarshalJSON_def
          Unmarshal_int_def Unmarshal_string_def validKeyField_def updateDBdocument_no_faults
          position_rows_def REAL_column_def)
  have 2: "snd (updateProgress ?db1 200 ''alice''
          (Some \<lparr>timestamp = 0, document_member = ''bookA'', progress = Some (JString ''p9''),
             device = ''tablet'', percentage = 0x8000000000000000, device_id = ''d2''\<rparr>)) = ?db2"
    by (simp add: updateProgress_def ShouldBindJSON_def UnmarshalJSON_progress_def UnmarshalJSON_def
          Unmarshal_int_def Unmarshal_string_def validKeyField_def updateDBdocument_no_faults
          position_rows_def REAL_column_def)
  have 3: "fst (getProgress ?db2 ''alice'' ''bookA'')
     = Done (Inr (Response 200 (PositionJSON
         \<lparr>timestamp = 200, document_member = ''bookA'', progress = Some (JString ''p9''),
          device = ''tablet'', percentage = 0, device_id = ''d2''\<rparr>)))"
    by (simp add: getProgress_stored position_rows_def)
  have 4: "position_rows
     (snd (interleave updateDBdocument_step [True, False, True, False] ?db
        (Update_existDoc 100 ''alice''
           \<lparr>requestPosition.Timestamp = 0, requestPosition.DocumentID = ''bookA'',
            requestPosition.Progress = \<lparr>inner = ''p7''\<rparr>, requestPosition.Device = ''phone'',
            requestPosition.Percentage = 0, requestPosition.DeviceID = ''d1''\<rparr>)
        (Update_existDoc 101 ''alice''
           \<lparr>requestPosition.Timestamp = 0, requestPosition.DocumentID = ''bookA'',
            requestPosition.Progress = \<lparr>inner = ''p9''\<rparr>, requestPosition.Device = ''tablet'',
            requestPosition.Percentage = 0, requestPosition.DeviceID = ''d2''\<rparr>)))
     ''alice'' ''bookA''
   = [\<lparr>dbDocument.Username = ''alice'', dbDocument.DocumentID = ''bookA'',
       dbDocument.Percentage = 0, dbDocument.Progress = ''p7'', dbDocument.Device = ''phone'',
       dbDocument.DeviceID = ''d1'', dbDocument.Timestamp = 100\<rparr>,
      \<lparr>dbDocument.Username = ''alice'', dbDocument.DocumentID = ''bookA'',
       dbDocument.Percentage = 0, dbDocument.Progress = ''p9'', dbDocument.Device = ''tablet'',
       dbDocument.DeviceID = ''d2'', dbDocument.Timestamp = 101\<rparr>]"
    by (simp add: existDoc_no_faults insert_document_eq REAL_column_def position_rows_def)
  have 5: "(0 :: float64) \<noteq> 0x8000000000000000" by simp
  from 1 2 3 4 5 show ?thesis by simp
qed

section \<open>The authentication middleware\<close>

lemma distinct_map_filter_one:
  "distinct (map f xs) \<Longrightarrow> r \<in> set xs \<Longrightarrow> filter (\<lambda>x. f x = f r) xs = [r]"
proof (induction xs)
  case Nil
  then show ?case by simp
next
  case (Cons a xs)
  show ?case
  proof (cases "a = r")
    case True
    with Cons.prems have "\<forall>x \<in> set xs. f x \<noteq> f r" by (auto simp: image_iff)
    then have "filter (\<lambda>x. f x = f r) xs = []" by (simp add: filter_empty_conv)
    with True show ?thesis by simp
  next
    case False
    with Cons.prems have "r \<in> set xs" and "f a \<noteq> f r" by (auto simp: image_iff)
    with Cons show ?thesis by simp
  qed
qed

lemma unique_usernames_rows:
  assumes "unique_usernames db" and "r \<in> set (user db)" and "r' \<in> set (user db)"
    and "dbUser.Username r = dbUser.Username r'"
  shows "r = r'"
  using assms unfolding unique_usernames_def by (auto simp: distinct_map inj_on_def)

lemma AuthRequired_result:
  "fst (AuthRequired db header) = Inr (AuthUser header) \<or> fst (AuthRequired db header) = Inl Unauthorized"
  by (auto simp: AuthRequired_def split: prod.splits)

lemma AuthRequired_sound:
  assumes "fst (AuthRequired db header) = Inr u"
  shows "validKeyField (AuthUser header)" and "AuthKey header \<noteq> []"
    and "\<exists>r \<in> set (user db). dbUser.Username r = AuthUser header \<and> dbUser.Password r = AuthKey header"
proof -
  from assms show v: "validKeyField (AuthUser header)" and k: "AuthKey header \<noteq> []"
    by (auto simp: AuthRequired_def Unauthorized_def split: if_splits)
  obtain r norows where g: "getDBUser db (AuthUser header) = ((r, norows), db\<lparr>faults := tl (faults db)\<rparr>)"
    by (metis snd_getDBUser prod.collapse)
  with assms v k have "\<not> norows" and p: "dbUser.Password r = AuthKey header"
    by (auto simp: AuthRequired_def split: if_splits)
  with g k have "r \<in> set (user db) \<and> dbUser.Username r = AuthUser header"
    by (auto dest: getDBUser_found)
  with p show "\<exists>r \<in> set (user db). dbUser.Username r = AuthUser header \<and> dbUser.Password r = AuthKey header"
    by blast
qed

lemma AuthRequired_complete:
  assumes "unique_usernames db" and "faults db = []"
    and "validKeyField (AuthUser header)" and "AuthKey header \<noteq> []"
    and "r \<in> set (user db)" and "dbUser.Username r = AuthUser header"
    and "dbUser.Password r = AuthKey header"
  shows "AuthRequired db header = (Inr (AuthUser header), db)"
proof -
  from assms(1,5) have "filter (\<lambda>x. dbUser.Username x = dbUser.Username r) (user db) = [r]"
    unfolding unique_usernames_def by (rule distinct_map_filter_one)
  with assms show ?thesis
    by (simp add: AuthRequired_def getDBUser_no_faults)
qed

lemma serve_unauthorized:
  assumes "fst (AuthRequired db header) = Inl Unauthorized"
    and "Accept header = ''application/vnd.koreader.v1+json''" and "protected rt"
  shows "serve db nowtime (Some header) rt
     = (Some (Response 401 (ErrorJSON 2001 ''Unauthorized'')), snd (AuthRequired db header))"
proof -
  obtain d where "AuthRequired db header = (Inl Unauthorized, d)"
    using assms(1) by (cases "AuthRequired db header") simp
  with assms(2,3) show ?thesis
    by (cases rt)
       (simp_all add: serve_def router_def authorized_def AcceptHeaderCheck_def ErrorHandler_def
          Unauthorized_def)
qed

text \<open>
  C2. In every store the server reaches by serving its requests one after another, a
  username has at most one credential row,
  and \<open>AuthRequired\<close> lets a request through only if the claimed username is non-empty and
  holds no \<open>:\<close>, the presented key is non-empty, and a credential row of exactly that
  username holds exactly that key as its password; when the lookup statement does not
  fail, these conditions are also sufficient. A request it does not let through
  is answered with \<open>Unauthorized\<close> (status 401, code 2001), and on the routes behind
  it the handler does not run: both tables are as before.
\<close>

theorem auth_required_iff:
  assumes "sequentially_reachable db"
  shows "(\<forall>r \<in> set (user db). \<forall>r' \<in> set (user db). dbUser.Username r = dbUser.Username r' \<longrightarrow> r = r')
       \<and> (fst (AuthRequired db header) = Inr (AuthUser header) \<longrightarrow>
            AuthUser header \<noteq> [] \<and> CHR '':'' \<notin> set (AuthUser header) \<and> AuthKey header \<noteq> []
            \<and> (\<exists>r \<in> set (user db). dbUser.Username r = AuthUser header
                  \<and> dbUser.Password r = AuthKey header))
       \<and> (faults db = [] \<and> AuthUser header \<noteq> [] \<and> CHR '':'' \<notin> set (AuthUser header)
            \<and> AuthKey header \<noteq> []
            \<and> (\<exists>r \<in> set (user db). dbUser.Username r = AuthUser header
                  \<and> dbUser.Password r = AuthKey header) \<longrightarrow>
            AuthRequired db header = (Inr (AuthUser header), db))
       \<and> (fst (AuthRequired db header) \<noteq> Inr (AuthUser header) \<longrightarrow>
            fst (AuthRequired db header) = Inl Unauthorized
            \<and> (Accept header = ''application/vnd.koreader.v1+json'' \<and> protected rt \<longrightarrow>
                 fst (serve db nowtime (Some header) rt)
                   = Some (Response 401 (ErrorJSON 2001 ''Unauthorized''))
                 \<and> user (snd (serve db nowtime (Some header) rt)) = user db
                 \<and> document (snd (serve db nowtime (Some header) rt)) = document db))"
proof (intro conjI impI ballI)
  from assms have uu: "unique_usernames db" by (simp add: sequentially_reachable_unique)
  {
    fix r r' assume "r \<in> set (user db)" "r' \<in> set (user db)" "dbUser.Username r = dbUser.Username r'"
    with uu show "r = r'" by (rule unique_usernames_rows)
  }
  {
    assume a: "fst (AuthRequired db header) = Inr (AuthUser header)"
    from AuthRequired_sound(1) [OF a] show "AuthUser header \<noteq> []" and "CHR '':'' \<notin> set (AuthUser header)"
      by (auto simp: validKeyField_def)
    from a show "AuthKey header \<noteq> []" by (rule AuthRequired_sound(2))
    from a show "\<exists>r \<in> set (user db). dbUser.Username r = AuthUser header
                  \<and> dbUser.Password r = AuthKey header" by (rule AuthRequired_sound(3))
  }
  {
    assume "faults db = [] \<and> AuthUser header \<noteq> [] \<and> CHR '':'' \<notin> set (AuthUser header)
            \<and> AuthKey header \<noteq> []
            \<and> (\<exists>r \<in> set (user db). dbUser.Username r = AuthUser header
                  \<and> dbUser.Password r = AuthKey header)"
    with uu show "AuthRequired db header = (Inr (AuthUser header), db)"
      by (auto simp: validKeyField_def intro: AuthRequired_complete)
  }
  {
    assume n: "fst (AuthRequired db header) \<noteq> Inr (AuthUser header)"
    then show un: "fst (AuthRequired db header) = Inl Unauthorized"
      using AuthRequired_result [of db header] by simp
    assume r: "Accept header = ''application/vnd.koreader.v1+json'' \<and> protected rt"
    with un have s: "serve db nowtime (Some header) rt
       = (Some (Response 401 (ErrorJSON 2001 ''Unauthorized'')), snd (AuthRequired db header))"
      by (simp add: serve_unauthorized)
    then show "fst (serve db nowtime (Some header) rt)
                   = Some (Response 401 (ErrorJSON 2001 ''Unauthorized''))" by simp
    from s show "user (snd (serve db nowtime (Some header) rt)) = user db"
      and "document (snd (serve db nowtime (Some header) rt)) = document db"
      using AuthRequired_snd [of db header] by auto
  }
qed

lemma sequentially_reachable_alice:
  "sequentially_reachable \<lparr>user = [\<lparr>dbUser.Username = ''alice'', dbUser.Password = ''s3cret''\<rparr>],
              document = [], faults = []\<rparr>"
proof -
  have "serve \<lparr>user = [], document = [], faults = []\<rparr> 0
          (Some \<lparr>Accept = ''application/vnd.koreader.v1+json'', AuthUser = [], AuthKey = []\<rparr>)
          (POST_users_create (Some \<lparr>requestUser.Username = ''alice'', requestUser.Password = ''s3cret''\<rparr>))
        = (Some (Response 201 (UsernameJSON ''alice'')),
           \<lparr>user = [\<lparr>dbUser.Username = ''alice'', dbUser.Password = ''s3cret''\<rparr>],
            document = [], faults = []\<rparr>)"
    by (simp add: serve_def router_def AcceptHeaderCheck_def register_def addDBUser_no_faults
          insert_user_def ErrorHandler_def)
  with sequentially_reachable.init [of "[]"] show ?thesis
    by (rule sequentially_reachable.request)
qed

theorem auth_required_iff_witness:
  "sequentially_reachable \<lparr>user = [\<lparr>dbUser.Username = ''alice'', dbUser.Password = ''s3cret''\<rparr>],
              document = [], faults = []\<rparr>
   \<and> AuthRequired \<lparr>user = [\<lparr>dbUser.Username = ''alice'', dbUser.Password = ''s3cret''\<rparr>],
              document = [], faults = []\<rparr>
        \<lparr>Accept = ''application/vnd.koreader.v1+json'', AuthUser = ''alice'', AuthKey = ''s3cret''\<rparr>
      = (Inr ''alice'', \<lparr>user = [\<lparr>dbUser.Username = ''alice'', dbUser.Password = ''s3cret''\<rparr>],
              document = [], faults = []\<rparr>)
   \<and> fst (AuthRequired \<lparr>user = [\<lparr>dbUser.Username = ''alice'', dbUser.Password = ''s3cret''\<rparr>],
              document = [], faults = []\<rparr>
        \<lparr>Accept = ''application/vnd.koreader.v1+json'', AuthUser = ''alice'', AuthKey = ''S3cret''\<rparr>)
      = Inl Unauthorized
   \<and> fst (serve \<lparr>user = [\<lparr>dbUser.Username = ''alice'', dbUser.Password = ''s3cret''\<rparr>],
              document = [], faults = []\<rparr> 0
        (Some \<lparr>Accept = ''application/vnd.koreader.v1+json'', AuthUser = ''alice'', AuthKey = ''S3cret''\<rparr>)
        GET_users_auth)
      = Some (Response 401 (ErrorJSON 2001 ''Unauthorized''))"
proof -
  let ?db = "\<lparr>user = [\<lparr>dbUser.Username = ''alice'', dbUser.Password = ''s3cret''\<rparr>],
              document = [], faults = []\<rparr>"
  let ?good = "\<lparr>Accept = ''application/vnd.koreader.v1+json'', AuthUser = ''alice'', AuthKey = ''s3cret''\<rparr>"
  let ?bad = "\<lparr>Accept = ''application/vnd.koreader.v1+json'', AuthUser = ''alice'', AuthKey = ''S3cret''\<rparr>"
  note g = auth_required_iff [OF sequentially_reachable_alice, where header = ?good and rt = GET_users_auth and nowtime = 0]
  note b = auth_required_iff [OF sequentially_reachable_alice, where header = ?bad and rt = GET_users_auth and nowtime = 0]
  from g have 1: "AuthRequired ?db ?good = (Inr ''alice'', ?db)" by simp
  from b have "fst (AuthRequired ?db ?bad) \<noteq> Inr (AuthUser ?bad)" by auto
  with b have 2: "fst (AuthRequired ?db ?bad) = Inl Unauthorized"
    and 3: "fst (serve ?db 0 (Some ?bad) GET_users_auth) = Some (Response 401 (ErrorJSON 2001 ''Unauthorized''))"
    by simp_all
  from sequentially_reachable_alice 1 2 3 show ?thesis by simp
qed

text \<open>
  C8. On a route behind \<open>AuthRequired\<close>, a request that names an existing username with a key
  that is not its password and a request that names a username with no credential row
  get the same response: status 401 with code 2001 and message \<open>Unauthorized\<close>, the
  fields of the one \<open>Unauthorized\<close> error value.
\<close>

theorem unauthorized_indistinguishable:
  assumes "Accept h1 = ''application/vnd.koreader.v1+json''"
    and "Accept h2 = ''application/vnd.koreader.v1+json''"
    and "\<exists>r \<in> set (user db). dbUser.Username r = AuthUser h1"
    and "\<forall>r \<in> set (user db). dbUser.Username r = AuthUser h1 \<longrightarrow> dbUser.Password r \<noteq> AuthKey h1"
    and "\<forall>r \<in> set (user db). dbUser.Username r \<noteq> AuthUser h2"
    and "protected rt"
  shows "fst (AuthRequired db h1) = Inl Unauthorized
       \<and> fst (AuthRequired db h2) = Inl Unauthorized
       \<and> fst (serve db nowtime (Some h1) rt)
           = Some (Response (Status Unauthorized) (ErrorJSON (Code Unauthorized) (Message Unauthorized)))
       \<and> fst (serve db nowtime (Some h2) rt) = fst (serve db nowtime (Some h1) rt)
       \<and> Status Unauthorized = 401 \<and> Code Unauthorized = 2001 \<and> Message Unauthorized = ''Unauthorized''"
proof -
  have 1: "fst (AuthRequired db h1) = Inl Unauthorized"
  proof (rule ccontr)
    assume "fst (AuthRequired db h1) \<noteq> Inl Unauthorized"
    then have "fst (AuthRequired db h1) = Inr (AuthUser h1)"
      using AuthRequired_result [of db h1] by simp
    from AuthRequired_sound(3) [OF this] assms(4) show False by blast
  qed
  have 2: "fst (AuthRequired db h2) = Inl Unauthorized"
  proof (rule ccontr)
    assume "fst (AuthRequired db h2) \<noteq> Inl Unauthorized"
    then have "fst (AuthRequired db h2) = Inr (AuthUser h2)"
      using AuthRequired_result [of db h2] by simp
    from AuthRequired_sound(3) [OF this] assms(5) show False by blast
  qed
  from 1 assms(1,6) have 3: "fst (serve db nowtime (Some h1) rt) = Some (Response 401 (ErrorJSON 2001 ''Unauthorized''))"
    by (simp add: serve_unauthorized)
  from 2 assms(2,6) have 4: "fst (serve db nowtime (Some h2) rt) = Some (Response 401 (ErrorJSON 2001 ''Unauthorized''))"
    by (simp add: serve_unauthorized)
  from 1 2 3 4 show ?thesis by (simp add: Unauthorized_def)
qed

theorem unauthorized_indistinguishable_witness:
  "fst (serve \<lparr>user = [\<lparr>dbUser.Username = ''alice'', dbUser.Password = ''s3cret''\<rparr>],
              document = [], faults = []\<rparr> 0
        (Some \<lparr>Accept = ''application/vnd.koreader.v1+json'', AuthUser = ''alice'', AuthKey = ''wrong''\<rparr>)
        (GET_syncs_progress ''bookA''))
     = Some (Response 401 (ErrorJSON 2001 ''Unauthorized''))
   \<and> fst (serve \<lparr>user = [\<lparr>dbUser.Username = ''alice'', dbUser.Password = ''s3cret''\<rparr>],
              document = [], faults = []\<rparr> 0
        (Some \<lparr>Accept = ''application/vnd.koreader.v1+json'', AuthUser = ''bob'', AuthKey = ''s3cret''\<rparr>)
        (GET_syncs_progress ''bookA''))
     = Some (Response 401 (ErrorJSON 2001 ''Unauthorized''))"
proof -
  let ?db = "\<lparr>user = [\<lparr>dbUser.Username = ''alice'', dbUser.Password = ''s3cret''\<rparr>],
              document = [], faults = []\<rparr>"
  let ?h1 = "\<lparr>Accept = ''application/vnd.koreader.v1+json'', AuthUser = ''alice'', AuthKey = ''wrong''\<rparr>"
  let ?h2 = "\<lparr>Accept = ''application/vnd.koreader.v1+json'', AuthUser = ''bob'', AuthKey = ''s3cret''\<rparr>"
  have a: "Accept ?h1 = ''application/vnd.koreader.v1+json''"
    and b: "Accept ?h2 = ''application/vnd.koreader.v1+json''"
    and c: "\<exists>r \<in> set (user ?db). dbUser.Username r = AuthUser ?h1"
    and d: "\<forall>r \<in> set (user ?db). dbUser.Username r = AuthUser ?h1 \<longrightarrow> dbUser.Password r \<noteq> AuthKey ?h1"
    and e: "\<forall>r \<in> set (user ?db). dbUser.Username r \<noteq> AuthUser ?h2"
    and f: "protected (GET_syncs_progress ''bookA'')"
    by simp_all
  from unauthorized_indistinguishable [OF a b c d e f, of 0]
  show ?thesis by (simp add: Unauthorized_def)
qed

text \<open>
  C10. \<open>register\<close> checks a username for emptiness only, so a username with a \<open>:\<close> in it
  is registered like any other (when it has no row yet, the password is non-empty and no
  statement fails, the answer is 201 and the row is added). \<open>AuthRequired\<close> refuses such a
  username before it looks at the store: in every store, with every key, it answers
  \<open>Unauthorized\<close> without a statement, and each of the three routes behind it
  (\<open>/users/auth\<close>, pull, push) answers 401 and leaves the store as it is.
\<close>

theorem colon_username_unusable:
  assumes "CHR '':'' \<in> set u"
  shows "(faults db = [] \<and> p \<noteq> [] \<and> (\<forall>r \<in> set (user db). dbUser.Username r \<noteq> u) \<longrightarrow>
            register db (Some \<lparr>requestUser.Username = u, requestUser.Password = p\<rparr>)
              = (Done (Inr (Response 201 (UsernameJSON u))),
                 db\<lparr>user := user db @ [\<lparr>dbUser.Username = u, dbUser.Password = p\<rparr>]\<rparr>))
       \<and> (AuthUser header = u \<longrightarrow> AuthRequired db' header = (Inl Unauthorized, db'))
       \<and> (AuthUser header = u \<and> Accept header = ''application/vnd.koreader.v1+json'' \<and> protected rt \<longrightarrow>
            serve db' nowtime (Some header) rt
              = (Some (Response 401 (ErrorJSON 2001 ''Unauthorized'')), db'))"
proof (intro conjI impI)
  assume a: "faults db = [] \<and> p \<noteq> [] \<and> (\<forall>r \<in> set (user db). dbUser.Username r \<noteq> u)"
  then have "filter (\<lambda>r. dbUser.Username r = u) (user db) = []"
    by (simp add: filter_empty_conv)
  moreover from assms have "u \<noteq> []" by auto
  ultimately show "register db (Some \<lparr>requestUser.Username = u, requestUser.Password = p\<rparr>)
              = (Done (Inr (Response 201 (UsernameJSON u))),
                 db\<lparr>user := user db @ [\<lparr>dbUser.Username = u, dbUser.Password = p\<rparr>]\<rparr>)"
    using a by (simp add: register_def addDBUser_no_faults insert_user_def)
next
  assume "AuthUser header = u"
  with assms show "AuthRequired db' header = (Inl Unauthorized, db')"
    by (simp add: AuthRequired_def validKeyField_def)
next
  assume a: "AuthUser header = u \<and> Accept header = ''application/vnd.koreader.v1+json'' \<and> protected rt"
  with assms have u: "AuthRequired db' header = (Inl Unauthorized, db')"
    by (simp add: AuthRequired_def validKeyField_def)
  with a show "serve db' nowtime (Some header) rt
              = (Some (Response 401 (ErrorJSON 2001 ''Unauthorized'')), db')"
    using serve_unauthorized [of db' header rt nowtime] by simp
qed

theorem colon_username_unusable_witness:
  "register \<lparr>user = [], document = [], faults = []\<rparr>
       (Some \<lparr>requestUser.Username = ''a:b'', requestUser.Password = ''pw''\<rparr>)
     = (Done (Inr (Response 201 (UsernameJSON ''a:b''))),
        \<lparr>user = [\<lparr>dbUser.Username = ''a:b'', dbUser.Password = ''pw''\<rparr>], document = [], faults = []\<rparr>)
   \<and> serve \<lparr>user = [\<lparr>dbUser.Username = ''a:b'', dbUser.Password = ''pw''\<rparr>], document = [], faults = []\<rparr> 0
       (Some \<lparr>Accept = ''application/vnd.koreader.v1+json'', AuthUser = ''a:b'', AuthKey = ''pw''\<rparr>)
       GET_users_auth
     = (Some (Response 401 (ErrorJSON 2001 ''Unauthorized'')),
        \<lparr>user = [\<lparr>dbUser.Username = ''a:b'', dbUser.Password = ''pw''\<rparr>], document = [], faults = []\<rparr>)"
proof -
  have c: "CHR '':'' \<in> set ''a:b''" by simp
  from colon_username_unusable [OF c, where db = "\<lparr>user = [], document = [], faults = []\<rparr>"
      and p = "''pw''"
      and db' = "\<lparr>user = [\<lparr>dbUser.Username = ''a:b'', dbUser.Password = ''pw''\<rparr>], document = [], faults = []\<rparr>"
      and header = "\<lparr>Accept = ''application/vnd.koreader.v1+json'', AuthUser = ''a:b'', AuthKey = ''pw''\<rparr>"
      and rt = GET_users_auth and nowtime = 0]
  show ?thesis by simp
qed

section \<open>Registration\<close>

lemma register_created:
  assumes "faults db = []"
    and "register db (Some \<lparr>requestUser.Username = u, requestUser.Password = p\<rparr>)
           = (Done (Inr resp), db')"
  shows "u \<noteq> []" and "p \<noteq> []"
    and "filter (\<lambda>r. dbUser.Username r = u) (user db) = []"
    and "db' = db\<lparr>user := user db @ [\<lparr>dbUser.Username = u, dbUser.Password = p\<rparr>]\<rparr>"
  using assms
  by (auto simp: register_def addDBUser_no_faults insert_user_def split: if_splits)

text \<open>
  C6. After a registration of \<open>u\<close> with password \<open>p1\<close> that was answered with 201 (no
  statement failing), a second registration of \<open>u\<close> with any non-empty password \<open>p2\<close>
  is answered with \<open>UsernameAlreadyRegistered\<close> (status 403, code 2002) and returns the
  store as it was: \<open>u\<close> still has the single credential row with password \<open>p1\<close>, and
  that is the row a lookup of \<open>u\<close> finds.
\<close>

theorem duplicate_register_rejected:
  assumes "faults db = []"
    and "register db (Some \<lparr>requestUser.Username = u, requestUser.Password = p1\<rparr>)
           = (Done (Inr (Response 201 (UsernameJSON u))), db1)"
    and "p2 \<noteq> []"
  shows "register db1 (Some \<lparr>requestUser.Username = u, requestUser.Password = p2\<rparr>)
           = (Done (Inl UsernameAlreadyRegistered), db1)
       \<and> ErrorHandler (Inl UsernameAlreadyRegistered)
           = Response 403 (ErrorJSON 2002 ''Username is already registered.'')
       \<and> filter (\<lambda>r. dbUser.Username r = u) (user db1) = [\<lparr>dbUser.Username = u, dbUser.Password = p1\<rparr>]
       \<and> getDBUser db1 u = ((\<lparr>dbUser.Username = u, dbUser.Password = p1\<rparr>, False), db1)"
proof -
  note c = register_created [OF assms(1,2)]
  from c(3,4) have rows: "filter (\<lambda>r. dbUser.Username r = u) (user db1)
      = [\<lparr>dbUser.Username = u, dbUser.Password = p1\<rparr>]"
    by simp
  from c(4) assms(1) have f: "faults db1 = []" by simp
  from f rows have g: "getDBUser db1 u = ((\<lparr>dbUser.Username = u, dbUser.Password = p1\<rparr>, False), db1)"
    by (simp add: getDBUser_no_faults)
  from f rows c(1) assms(3)
  have "register db1 (Some \<lparr>requestUser.Username = u, requestUser.Password = p2\<rparr>)
           = (Done (Inl UsernameAlreadyRegistered), db1)"
    by (simp add: register_def addDBUser_no_faults)
  with rows g show ?thesis
    by (simp add: ErrorHandler_def UsernameAlreadyRegistered_def)
qed

theorem duplicate_register_rejected_witness:
  "register \<lparr>user = [], document = [], faults = []\<rparr>
       (Some \<lparr>requestUser.Username = ''alice'', requestUser.Password = ''s3cret''\<rparr>)
     = (Done (Inr (Response 201 (UsernameJSON ''alice''))),
        \<lparr>user = [\<lparr>dbUser.Username = ''alice'', dbUser.Password = ''s3cret''\<rparr>],
         document = [], faults = []\<rparr>)
   \<and> register \<lparr>user = [\<lparr>dbUser.Username = ''alice'', dbUser.Password = ''s3cret''\<rparr>],
         document = [], faults = []\<rparr>
       (Some \<lparr>requestUser.Username = ''alice'', requestUser.Password = ''other''\<rparr>)
     = (Done (Inl UsernameAlreadyRegistered),
        \<lparr>user = [\<lparr>dbUser.Username = ''alice'', dbUser.Password = ''s3cret''\<rparr>],
         document = [], faults = []\<rparr>)"
proof -
  let ?db = "\<lparr>user = [], document = [], faults = []\<rparr>"
  let ?db1 = "\<lparr>user = [\<lparr>dbUser.Username = ''alice'', dbUser.Password = ''s3cret''\<rparr>],
         document = [], faults = []\<rparr>"
  have f: "faults ?db = []" by simp
  have r: "register ?db (Some \<lparr>requestUser.Username = ''alice'', requestUser.Password = ''s3cret''\<rparr>)
     = (Done (Inr (Response 201 (UsernameJSON ''alice''))), ?db1)"
    by (simp add: register_def addDBUser_no_faults insert_user_def)
  have n: "''other'' \<noteq> []" by simp
  from duplicate_register_rejected [OF f r n] r show ?thesis by simp
qed

section \<open>Pulls without a position, and statements that fail\<close>

lemma getProgress_no_rows:
  assumes "d \<noteq> []" and "faults db = []" and "position_rows db username d = []"
  shows "getProgress db username d = (Done (Inr (Response 200 EmptyJSON)), db)"
  using assms by (simp add: getProgress_def getDBPosition_no_rows)

lemma getProgress_fault:
  assumes "d \<noteq> []" and "faults db = True # fs"
  shows "getProgress db username d = (Done (Inr (Response 200 EmptyJSON)), db\<lparr>faults := fs\<rparr>)"
  using assms by (simp add: getProgress_def getDBPosition_def db_Get_eq)

lemma updateDBdocument_write_fault:
  assumes "faults db = f # True # fs"
  shows "updateDBdocument db nowtime username rPos = (Fatal, db\<lparr>faults := fs\<rparr>)"
proof -
  obtain ex where e: "existDoc db username (requestPosition.DocumentID rPos)
      = (ex, db\<lparr>faults := True # fs\<rparr>)"
    using snd_existDoc [of db username "requestPosition.DocumentID rPos"] assms
    by (cases "existDoc db username (requestPosition.DocumentID rPos)") simp
  then show ?thesis
    by (simp add: updateDBdocument_def update_document_eq insert_document_eq)
qed

text \<open>
  C4, as the code has it. A pull with a non-empty document parameter for a key without
  a row is answered with status 200 and the empty object. A pull whose query fails in
  the engine is answered with the same status 200 and the same empty object: the
  handler maps every error of \<open>getDBPosition\<close> to it, so the failure is neither an
  \<open>UnknownServerError\<close> nor distinguishable from a key without a row. A push that has
  passed validation and whose write statement fails ends in \<^verbatim>\<open>log.Fatalln\<close>: the
  process ends and no response is sent.
\<close>

theorem pull_empty_and_failing_statements:
  "(d \<noteq> [] \<and> faults db = [] \<and> position_rows db username d = [] \<longrightarrow>
      getProgress db username d = (Done (Inr (Response 200 EmptyJSON)), db))
   \<and> (d \<noteq> [] \<and> faults db = True # fs \<longrightarrow>
      getProgress db username d = (Done (Inr (Response 200 EmptyJSON)), db\<lparr>faults := fs\<rparr>))
   \<and> (ShouldBindJSON body = Some rPos \<and> validKeyField (requestPosition.DocumentID rPos)
        \<and> inner (requestPosition.Progress rPos) \<noteq> [] \<and> requestPosition.Device rPos \<noteq> []
        \<and> faults db = f # True # fs \<longrightarrow>
      updateProgress db nowtime username body = (Fatal, db\<lparr>faults := fs\<rparr>))
   \<and> (fst (router db nowtime hdr rt) = Fatal \<longrightarrow> fst (serve db nowtime hdr rt) = None)"
proof (intro conjI impI)
  assume "d \<noteq> [] \<and> faults db = [] \<and> position_rows db username d = []"
  then show "getProgress db username d = (Done (Inr (Response 200 EmptyJSON)), db)"
    by (simp add: getProgress_no_rows)
next
  assume "d \<noteq> [] \<and> faults db = True # fs"
  then show "getProgress db username d = (Done (Inr (Response 200 EmptyJSON)), db\<lparr>faults := fs\<rparr>)"
    by (simp add: getProgress_fault)
next
  assume a: "ShouldBindJSON body = Some rPos \<and> validKeyField (requestPosition.DocumentID rPos)
        \<and> inner (requestPosition.Progress rPos) \<noteq> [] \<and> requestPosition.Device rPos \<noteq> []
        \<and> faults db = f # True # fs"
  then have "updateDBdocument db nowtime username rPos = (Fatal, db\<lparr>faults := fs\<rparr>)"
    by (simp add: updateDBdocument_write_fault)
  with a show "updateProgress db nowtime username body = (Fatal, db\<lparr>faults := fs\<rparr>)"
    by (simp add: updateProgress_def)
next
  assume "fst (router db nowtime hdr rt) = Fatal"
  then show "fst (serve db nowtime hdr rt) = None"
    by (cases "router db nowtime hdr rt") (simp add: serve_def)
qed

theorem pull_empty_and_failing_statements_witness:
  "getProgress \<lparr>user = [], document = [], faults = []\<rparr> ''alice'' ''bookA''
     = (Done (Inr (Response 200 EmptyJSON)), \<lparr>user = [], document = [], faults = []\<rparr>)
   \<and> getProgress \<lparr>user = [], document = [], faults = [True]\<rparr> ''alice'' ''bookA''
     = (Done (Inr (Response 200 EmptyJSON)), \<lparr>user = [], document = [], faults = []\<rparr>)
   \<and> updateProgress \<lparr>user = [], document = [], faults = [False, True]\<rparr> 7 ''alice''
        (Some \<lparr>timestamp = 0, document_member = ''bookA'', progress = Some (JString ''p7''),
           device = ''phone'', percentage = 0, device_id = ''d1''\<rparr>)
     = (Fatal, \<lparr>user = [], document = [], faults = []\<rparr>)"
proof -
  let ?b = "\<lparr>timestamp = 0, document_member = ''bookA'', progress = Some (JString ''p7''),
           device = ''phone'', percentage = 0, device_id = ''d1''\<rparr>"
  let ?r = "\<lparr>requestPosition.Timestamp = 0, requestPosition.DocumentID = ''bookA'',
         requestPosition.Progress = \<lparr>inner = ''p7''\<rparr>, requestPosition.Device = ''phone'',
         requestPosition.Percentage = 0, requestPosition.DeviceID = ''d1''\<rparr>"
  have b: "ShouldBindJSON (Some ?b) = Some ?r"
    by (simp add: ShouldBindJSON_def UnmarshalJSON_progress_def UnmarshalJSON_def
          Unmarshal_int_def Unmarshal_string_def)
  note t1 = pull_empty_and_failing_statements [where d = "''bookA''"
      and db = "\<lparr>user = [], document = [], faults = []\<rparr>" and username = "''alice''"]
  note t2 = pull_empty_and_failing_statements [where d = "''bookA''"
      and db = "\<lparr>user = [], document = [], faults = [True]\<rparr>" and username = "''alice''"
      and fs = "[]"]
  note t3 = pull_empty_and_failing_statements [where body = "Some ?b" and rPos = ?r
      and db = "\<lparr>user = [], document = [], faults = [False, True]\<rparr>" and username = "''alice''"
      and f = False and fs = "[]" and nowtime = 7]
  from t1 have 1: "getProgress \<lparr>user = [], document = [], faults = []\<rparr> ''alice'' ''bookA''
     = (Done (Inr (Response 200 EmptyJSON)), \<lparr>user = [], document = [], faults = []\<rparr>)"
    by (simp add: position_rows_def)
  from t2 have 2: "getProgress \<lparr>user = [], document = [], faults = [True]\<rparr> ''alice'' ''bookA''
     = (Done (Inr (Response 200 EmptyJSON)), \<lparr>user = [], document = [], faults = []\<rparr>)"
    by simp
  from t3 b have 3: "updateProgress \<lparr>user = [], document = [], faults = [False, True]\<rparr> 7 ''alice''
        (Some ?b) = (Fatal, \<lparr>user = [], document = [], faults = []\<rparr>)"
    by (simp add: validKeyField_def)
  from 1 2 3 show ?thesis by simp
qed

text \<open>
  The claim as the specification words it fails on a store where \<open>alice\<close> is registered
  and has a position for \<open>bookA\<close>. Her pull, with the credential lookup executing and the
  position query failing, is answered exactly like a pull for a document never pushed:
  status 200 and the empty object. Her push, with the lookup and the existence check
  executing and the \<^verbatim>\<open>UPDATE\<close> failing, gets no response: the process has ended.
\<close>

theorem storage_failure_counterexample:
  "fst (serve \<lparr>user = [\<lparr>dbUser.Username = ''alice'', dbUser.Password = ''s3cret''\<rparr>],
          document = [\<lparr>dbDocument.Username = ''alice'', dbDocument.DocumentID = ''bookA'',
            dbDocument.Percentage = 0, dbDocument.Progress = ''p7'', dbDocument.Device = ''phone'',
            dbDocument.DeviceID = ''d1'', dbDocument.Timestamp = 100\<rparr>],
          faults = [False, True]\<rparr> 200
        (Some \<lparr>Accept = ''application/vnd.koreader.v1+json'', AuthUser = ''alice'', AuthKey = ''s3cret''\<rparr>)
        (GET_syncs_progress ''bookA''))
     = Some (Response 200 EmptyJSON)
   \<and> fst (serve \<lparr>user = [\<lparr>dbUser.Username = ''alice'', dbUser.Password = ''s3cret''\<rparr>],
          document = [\<lparr>dbDocument.Username = ''alice'', dbDocument.DocumentID = ''bookA'',
            dbDocument.Percentage = 0, dbDocument.Progress = ''p7'', dbDocument.Device = ''phone'',
            dbDocument.DeviceID = ''d1'', dbDocument.Timestamp = 100\<rparr>],
          faults = []\<rparr> 200
        (Some \<lparr>Accept = ''application/vnd.koreader.v1+json'', AuthUser = ''alice'', AuthKey = ''s3cret''\<rparr>)
        (GET_syncs_progress ''neverPushed''))
     = Some (Response 200 EmptyJSON)
   \<and> fst (serve \<lparr>user = [\<lparr>dbUser.Username = ''alice'', dbUser.Password = ''s3cret''\<rparr>],
          document = [\<lparr>dbDocument.Username = ''alice'', dbDocument.DocumentID = ''bookA'',
            dbDocument.Percentage = 0, dbDocument.Progress = ''p7'', dbDocument.Device = ''phone'',
            dbDocument.DeviceID = ''d1'', dbDocument.Timestamp = 100\<rparr>],
          faults = [False, False, True]\<rparr> 200
        (Some \<lparr>Accept = ''application/vnd.koreader.v1+json'', AuthUser = ''alice'', AuthKey = ''s3cret''\<rparr>)
        (PUT_syncs_progress (Some \<lparr>timestamp = 0, document_member = ''bookA'',
           progress = Some (JString ''p9''), device = ''tablet'', percentage = 0, device_id = ''d2''\<rparr>)))
     = None"
  by (simp add: serve_def router_def authorized_def AcceptHeaderCheck_def AuthRequired_def validKeyField_def
        getDBUser_def db_Get_eq getProgress_def getDBPosition_def ErrorHandler_def
        updateProgress_def ShouldBindJSON_def UnmarshalJSON_progress_def UnmarshalJSON_def
        Unmarshal_int_def Unmarshal_string_def updateDBdocument_def existDoc_def
        update_document_eq insert_document_eq)

section \<open>The \<open>progress\<close> member from push to pull\<close>

lemma parse_digits_append:
  "parse_digits (xs @ ys) acc =
     (case parse_digits xs acc of None \<Rightarrow> None | Some n \<Rightarrow> parse_digits ys n)"
  by (induction xs arbitrary: acc) simp_all

lemma char_of_48: "char_of (48 :: nat) = CHR ''0''"
proof -
  have "char_of (of_char (CHR ''0'') :: nat) = CHR ''0''" by (rule char_of_char)
  then show ?thesis by simp
qed

lemma digit_char: "is_digit c \<Longrightarrow> char_of (48 + (of_char c - 48 :: nat)) = c"
  by (simp add: is_digit_def)

lemma digit_value_less: "is_digit c \<Longrightarrow> (of_char c - 48 :: nat) < 10"
  by (auto simp: is_digit_def)

lemma digit_value_zero:
  assumes "is_digit c" and "(of_char c - 48 :: nat) = 0"
  shows "c = CHR ''0''"
proof -
  from assms have "(of_char c :: nat) = 48" by (simp add: is_digit_def)
  then have "char_of (of_char c :: nat) = char_of (48 :: nat)" by simp
  then show ?thesis by (simp add: char_of_48)
qed

lemma digits_of_step:
  "0 < n \<Longrightarrow> v < 10 \<Longrightarrow> digits_of (n * 10 + v) = digits_of n @ [char_of (48 + v)]"
  by (subst digits_of.simps) simp

lemma digits_of_small: "n < 10 \<Longrightarrow> digits_of n = [char_of (48 + n)]"
  by (subst digits_of.simps) simp

text \<open>Digits that do not start with \<open>0\<close> are read to a positive number, and that
  number is written as the same digits.\<close>

lemma parse_digits_digits_of:
  "ds \<noteq> [] \<Longrightarrow> list_all is_digit ds \<Longrightarrow> hd ds \<noteq> CHR ''0'' \<Longrightarrow>
   \<exists>n. parse_digits ds 0 = Some n \<and> 0 < n \<and> digits_of n = ds"
proof (induction ds rule: rev_induct)
  case Nil
  then show ?case by simp
next
  case (snoc c xs)
  from snoc.prems have c: "is_digit c" by simp
  show ?case
  proof (cases "xs = []")
    case True
    with snoc.prems have "c \<noteq> CHR ''0''" by simp
    with c have "(of_char c - 48 :: nat) \<noteq> 0"
      using digit_value_zero [of c] by blast
    then have "0 < (of_char c - 48 :: nat)" by simp
    with c True show ?thesis
      by (simp add: digits_of_small digit_value_less digit_char)
  next
    case False
    with snoc.prems have "list_all is_digit xs" and "hd xs \<noteq> CHR ''0''" by simp_all
    with False snoc.IH obtain n where n: "parse_digits xs 0 = Some n" "0 < n" "digits_of n = xs"
      by blast
    with c have "parse_digits (xs @ [c]) 0 = Some (n * 10 + (of_char c - 48))"
      by (simp add: parse_digits_append)
    moreover from n c have "digits_of (n * 10 + (of_char c - 48)) = xs @ [c]"
      by (simp add: digits_of_step digit_value_less digit_char)
    ultimately show ?thesis using n(2) by simp
  qed
qed

lemma is_digit_not_sign: "is_digit c \<Longrightarrow> c \<noteq> CHR ''-'' \<and> c \<noteq> CHR ''+''"
  by (auto simp: is_digit_def)

text \<open>\<^verbatim>\<open>strconv.Itoa\<close> writes back the literal that \<^verbatim>\<open>strconv.ParseInt\<close> has read,
  for every integer literal of JSON except \<open>-0\<close>.\<close>

lemma Itoa_ParseInt:
  assumes "json_integer_literal lit" and "lit \<noteq> ''-0''" and "ParseInt lit = Some v"
  shows "Itoa v = lit"
proof (cases lit)
  case Nil
  with assms(3) show ?thesis by (simp add: ParseInt_def)
next
  case (Cons c cs)
  show ?thesis
  proof (cases "c = CHR ''-''")
    case True
    with Cons assms(1) have ds: "cs \<noteq> []" "list_all is_digit cs" "cs = ''0'' \<or> hd cs \<noteq> CHR ''0''"
      by (simp_all add: json_integer_literal_def)
    from Cons True assms(2) have "cs \<noteq> ''0''" by simp
    with ds obtain n where n: "parse_digits cs 0 = Some n" "0 < n" "digits_of n = cs"
      using parse_digits_digits_of [of cs] by blast
    with Cons True ds(1) assms(3) have "v = - int n"
      by (simp add: ParseInt_def Let_def split: if_splits)
    with n Cons True show ?thesis by (simp add: Itoa_def)
  next
    case False
    with Cons assms(1) have ds: "list_all is_digit lit" "lit = ''0'' \<or> hd lit \<noteq> CHR ''0''"
      by (simp_all add: json_integer_literal_def)
    with Cons have p: "c \<noteq> CHR ''+''" using is_digit_not_sign [of c] by simp
    show ?thesis
    proof (cases "lit = ''0''")
      case True
      with assms(3) have "v = 0" by (simp add: ParseInt_def is_digit_def)
      with True show ?thesis by (simp add: Itoa_def char_of_48)
    next
      case z: False
      with ds Cons obtain n where n: "parse_digits lit 0 = Some n" "0 < n" "digits_of n = lit"
        using parse_digits_digits_of [of lit] by auto
      with Cons False p assms(3) have "v = int n"
        by (simp add: ParseInt_def Let_def split: if_splits)
      with n show ?thesis by (simp add: Itoa_def)
    qed
  qed
qed

lemma UnmarshalJSON_number:
  assumes "json_integer_literal lit" and "lit \<noteq> ''-0''" and "ParseInt lit = Some v"
  shows "UnmarshalJSON (JNumber lit) = Some \<lparr>inner = lit\<rparr>"
  using Itoa_ParseInt [OF assms] assms(3) by (simp add: UnmarshalJSON_def Unmarshal_int_def)

lemma UnmarshalJSON_string: "UnmarshalJSON (JString s) = Some \<lparr>inner = s\<rparr>"
  by (simp add: UnmarshalJSON_def Unmarshal_int_def Unmarshal_string_def)

lemma ParseInt_42: "ParseInt ''42'' = Some 42"
  by (simp add: ParseInt_def is_digit_def)

lemma UnmarshalJSON_42: "UnmarshalJSON (JNumber ''42'') = Some \<lparr>inner = ''42''\<rparr>"
  by (rule UnmarshalJSON_number [OF _ _ ParseInt_42]) (simp_all add: json_integer_literal_def is_digit_def)

lemma UnmarshalJSON_42_0: "UnmarshalJSON (JNumber ''42.0'') = None"
  by (simp add: UnmarshalJSON_def Unmarshal_int_def Unmarshal_string_def ParseInt_def is_digit_def)

text \<open>A push that decodes \<open>progress\<close> to \<open>p\<close>, then a pull of the same key.\<close>

lemma push_then_pull_progress:
  assumes "faults db = []" and "validKeyField (document_member b)" and "device b \<noteq> []"
    and "UnmarshalJSON_progress b = Some p" and "inner p \<noteq> []"
  shows "\<exists>pos. fst (getProgress (snd (updateProgress db nowtime username (Some b))) username
                (document_member b)) = Done (Inr (Response 200 (PositionJSON pos)))
           \<and> progress pos = Some (JString (inner p))"
proof -
  let ?rPos = "\<lparr>requestPosition.Timestamp = timestamp b,
                requestPosition.DocumentID = document_member b,
                requestPosition.Progress = p,
                requestPosition.Device = device b,
                requestPosition.Percentage = percentage b,
                requestPosition.DeviceID = device_id b\<rparr>"
  obtain res db' where u: "updateDBdocument db nowtime username ?rPos = (res, db')"
    by (cases "updateDBdocument db nowtime username ?rPos")
  from assms(1) u have r: "res = Done nowtime" and f: "faults db' = []"
    by (auto dest: updateDBdocument_result)
  from assms u r have s: "snd (updateProgress db nowtime username (Some b)) = db'"
    by (simp add: updateProgress_def ShouldBindJSON_def)
  let ?row = "\<lparr>dbDocument.Username = username, dbDocument.DocumentID = document_member b,
        dbDocument.Percentage = REAL_column (percentage b), dbDocument.Progress = inner p,
        dbDocument.Device = device b, dbDocument.DeviceID = device_id b,
        dbDocument.Timestamp = nowtime\<rparr>"
  have "position_rows db' username (document_member b)
      = replicate (max 1 (length (position_rows db username (document_member b)))) ?row"
    using updateDBdocument_position_rows [OF assms(1) u] by simp
  moreover obtain n where "max 1 (length (position_rows db username (document_member b))) = Suc n"
    by (cases "max 1 (length (position_rows db username (document_member b)))") simp_all
  ultimately have "position_rows db' username (document_member b) = replicate (Suc n) ?row"
    by simp
  with f have "getDBPosition db' username (document_member b) =
     (Inr \<lparr>requestPosition.Timestamp = dbDocument.Timestamp ?row,
           requestPosition.DocumentID = document_member b,
           requestPosition.Progress = \<lparr>inner = dbDocument.Progress ?row\<rparr>,
           requestPosition.Device = dbDocument.Device ?row,
           requestPosition.Percentage = dbDocument.Percentage ?row,
           requestPosition.DeviceID = dbDocument.DeviceID ?row\<rparr>, db')"
    by (rule getDBPosition_replicate)
  moreover from assms(2) have "document_member b \<noteq> []" by (auto simp: validKeyField_def)
  ultimately show ?thesis using s
    by (simp add: getProgress_def Marshal_requestPosition_def MarshalJSON_def)
qed

text \<open>
  C5. For a push with a valid \<open>document\<close> and a non-empty \<open>device\<close>, no statement
  failing, followed by a pull of the same key: a \<open>progress\<close> sent as the number \<open>42\<close> comes
  back as the JSON string \<open>"42"\<close>, and one sent as the string \<open>"p7"\<close> comes back as
  \<open>"p7"\<close>. In general a non-empty string comes back unchanged, and an integer literal
  of JSON that fits an \<^verbatim>\<open>int\<close> (other than \<open>-0\<close>) comes back as the string of the same
  characters; what is stored in between is the string. The literal \<open>42.0\<close> is not
  decoded at all, so it can never come back as \<open>"42.0"\<close>.
\<close>

theorem progress_round_trip:
  assumes "faults db = []" and "validKeyField (document_member b)" and "device b \<noteq> []"
  shows "(progress b = Some (JNumber ''42'') \<longrightarrow>
            (\<exists>pos. fst (getProgress (snd (updateProgress db nowtime username (Some b))) username
                (document_member b)) = Done (Inr (Response 200 (PositionJSON pos)))
              \<and> progress pos = Some (JString ''42'')))
       \<and> (progress b = Some (JString ''p7'') \<longrightarrow>
            (\<exists>pos. fst (getProgress (snd (updateProgress db nowtime username (Some b))) username
                (document_member b)) = Done (Inr (Response 200 (PositionJSON pos)))
              \<and> progress pos = Some (JString ''p7'')))
       \<and> (progress b = Some (JString s) \<and> s \<noteq> [] \<longrightarrow>
            (\<exists>pos. fst (getProgress (snd (updateProgress db nowtime username (Some b))) username
                (document_member b)) = Done (Inr (Response 200 (PositionJSON pos)))
              \<and> progress pos = Some (JString s)))
       \<and> (progress b = Some (JNumber lit) \<and> json_integer_literal lit \<and> lit \<noteq> ''-0''
            \<and> ParseInt lit = Some v \<longrightarrow>
            (\<exists>pos. fst (getProgress (snd (updateProgress db nowtime username (Some b))) username
                (document_member b)) = Done (Inr (Response 200 (PositionJSON pos)))
              \<and> progress pos = Some (JString lit)))
       \<and> UnmarshalJSON (JNumber ''42.0'') = None"
proof (intro conjI impI)
  assume "progress b = Some (JNumber ''42'')"
  then have "UnmarshalJSON_progress b = Some \<lparr>inner = ''42''\<rparr>"
    by (simp add: UnmarshalJSON_progress_def UnmarshalJSON_42)
  from push_then_pull_progress [OF assms this]
  show "\<exists>pos. fst (getProgress (snd (updateProgress db nowtime username (Some b))) username
                (document_member b)) = Done (Inr (Response 200 (PositionJSON pos)))
              \<and> progress pos = Some (JString ''42'')" by simp
next
  assume "progress b = Some (JString ''p7'')"
  then have "UnmarshalJSON_progress b = Some \<lparr>inner = ''p7''\<rparr>"
    by (simp add: UnmarshalJSON_progress_def UnmarshalJSON_string)
  from push_then_pull_progress [OF assms this]
  show "\<exists>pos. fst (getProgress (snd (updateProgress db nowtime username (Some b))) username
                (document_member b)) = Done (Inr (Response 200 (PositionJSON pos)))
              \<and> progress pos = Some (JString ''p7'')" by simp
next
  assume a: "progress b = Some (JString s) \<and> s \<noteq> []"
  then have "UnmarshalJSON_progress b = Some \<lparr>inner = s\<rparr>"
    by (simp add: UnmarshalJSON_progress_def UnmarshalJSON_string)
  from push_then_pull_progress [OF assms this] a
  show "\<exists>pos. fst (getProgress (snd (updateProgress db nowtime username (Some b))) username
                (document_member b)) = Done (Inr (Response 200 (PositionJSON pos)))
              \<and> progress pos = Some (JString s)" by simp
next
  assume a: "progress b = Some (JNumber lit) \<and> json_integer_literal lit \<and> lit \<noteq> ''-0''
            \<and> ParseInt lit = Some v"
  then have "UnmarshalJSON_progress b = Some \<lparr>inner = lit\<rparr>"
    by (simp add: UnmarshalJSON_progress_def UnmarshalJSON_number)
  moreover from a have "lit \<noteq> []" by (auto simp: json_integer_literal_def)
  ultimately show "\<exists>pos. fst (getProgress (snd (updateProgress db nowtime username (Some b))) username
                (document_member b)) = Done (Inr (Response 200 (PositionJSON pos)))
              \<and> progress pos = Some (JString lit)"
    using push_then_pull_progress [OF assms, of "\<lparr>inner = lit\<rparr>"] by simp
next
  show "UnmarshalJSON (JNumber ''42.0'') = None" by (rule UnmarshalJSON_42_0)
qed

theorem progress_round_trip_witness:
  "(\<exists>pos. fst (getProgress (snd (updateProgress \<lparr>user = [], document = [], faults = []\<rparr> 5 ''alice''
            (Some \<lparr>timestamp = 0, document_member = ''bookA'', progress = Some (JNumber ''42''),
               device = ''phone'', percentage = 0, device_id = ''d1''\<rparr>))) ''alice'' ''bookA'')
          = Done (Inr (Response 200 (PositionJSON pos)))
        \<and> progress pos = Some (JString ''42''))
   \<and> (\<exists>pos. fst (getProgress (snd (updateProgress \<lparr>user = [], document = [], faults = []\<rparr> 5 ''alice''
            (Some \<lparr>timestamp = 0, document_member = ''bookA'', progress = Some (JString ''p7''),
               device = ''phone'', percentage = 0, device_id = ''d1''\<rparr>))) ''alice'' ''bookA'')
          = Done (Inr (Response 200 (PositionJSON pos)))
        \<and> progress pos = Some (JString ''p7''))"
proof -
  let ?db = "\<lparr>user = [], document = [], faults = []\<rparr>"
  let ?n = "\<lparr>timestamp = 0, document_member = ''bookA'', progress = Some (JNumber ''42''),
               device = ''phone'', percentage = 0, device_id = ''d1''\<rparr>"
  let ?s = "\<lparr>timestamp = 0, document_member = ''bookA'', progress = Some (JString ''p7''),
               device = ''phone'', percentage = 0, device_id = ''d1''\<rparr>"
  have f: "faults ?db = []" by simp
  have vn: "validKeyField (document_member ?n)" and dn: "device ?n \<noteq> []"
    and vs: "validKeyField (document_member ?s)" and ds: "device ?s \<noteq> []"
    by (simp_all add: validKeyField_def)
  from progress_round_trip [OF f vn dn, of 5 "''alice''"]
       progress_round_trip [OF f vs ds, of 5 "''alice''"]
  show ?thesis by simp
qed

section \<open>Requests that run at the same time\<close>

text \<open>A thread that runs alone, statement after statement, is the call itself.\<close>

lemma addDBUser_steps:
  "interleave addDBUser_step [True, True, True, True] db
     (AddUser_Get username password) (AddUser_Return r)
   = ((AddUser_Return (fst (addDBUser db username password)), AddUser_Return r),
      snd (addDBUser db username password))"
  by (simp add: addDBUser_def Let_def split: prod.split)

lemma updateDBdocument_steps:
  "interleave updateDBdocument_step [True, True] db
     (Update_existDoc nowtime username rPos) (Update_Return r)
   = ((Update_Return (fst (updateDBdocument db nowtime username rPos)), Update_Return r),
      snd (updateDBdocument db nowtime username rPos))"
  by (simp add: updateDBdocument_def Let_def split: prod.split)

text \<open>
  C9, on the code. Neither table has a uniqueness constraint, \<open>addDBUser\<close> looks the
  username up and inserts afterwards, and \<open>updateDBdocument\<close> asks \<open>existDoc\<close> and
  then updates or inserts. Two registrations of \<open>alice\<close> whose lookups both execute before
  either insert are both told that the user was added, and the table \<open>user\<close> holds two
  rows for \<open>alice\<close>. Two pushes of \<open>alice\<close> for \<open>bookA\<close> whose existence checks both
  execute before either write both return their timestamp, and the table \<open>document\<close>
  holds two rows for the key.
\<close>

theorem concurrent_requests_duplicate_rows:
  "interleave addDBUser_step [True, False, True, True, True, False, False, False]
       \<lparr>user = [], document = [], faults = []\<rparr>
       (AddUser_Get ''alice'' ''pw1'') (AddUser_Get ''alice'' ''pw2'')
     = ((AddUser_Return (Done True), AddUser_Return (Done True)),
        \<lparr>user = [\<lparr>dbUser.Username = ''alice'', dbUser.Password = ''pw1''\<rparr>,
                 \<lparr>dbUser.Username = ''alice'', dbUser.Password = ''pw2''\<rparr>],
         document = [], faults = []\<rparr>)
   \<and> interleave updateDBdocument_step [True, False, True, False]
       \<lparr>user = [], document = [], faults = []\<rparr>
       (Update_existDoc 100 ''alice''
          \<lparr>requestPosition.Timestamp = 0, requestPosition.DocumentID = ''bookA'',
           requestPosition.Progress = \<lparr>inner = ''10''\<rparr>, requestPosition.Device = ''phone'',
           requestPosition.Percentage = 0, requestPosition.DeviceID = ''d1''\<rparr>)
       (Update_existDoc 100 ''alice''
          \<lparr>requestPosition.Timestamp = 0, requestPosition.DocumentID = ''bookA'',
           requestPosition.Progress = \<lparr>inner = ''20''\<rparr>, requestPosition.Device = ''tablet'',
           requestPosition.Percentage = 0, requestPosition.DeviceID = ''d2''\<rparr>)
     = ((Update_Return (Done 100), Update_Return (Done 100)),
        \<lparr>user = [],
         document = [\<lparr>dbDocument.Username = ''alice'', dbDocument.DocumentID = ''bookA'',
            dbDocument.Percentage = 0, dbDocument.Progress = ''10'', dbDocument.Device = ''phone'',
            dbDocument.DeviceID = ''d1'', dbDocument.Timestamp = 100\<rparr>,
           \<lparr>dbDocument.Username = ''alice'', dbDocument.DocumentID = ''bookA'',
            dbDocument.Percentage = 0, dbDocument.Progress = ''20'', dbDocument.Device = ''tablet'',
            dbDocument.DeviceID = ''d2'', dbDocument.Timestamp = 100\<rparr>],
         faults = []\<rparr>)"
  by (simp add: getDBUser_no_faults statement_no_faults insert_user_def existDoc_no_faults
        insert_document_eq REAL_column_def)

end
